theory Spec2Isabelle
  imports Main "HOL-Library.Word"
begin

section \<open>The data of \<^verbatim>\<open>aoti.h\<close>\<close>

text \<open>
  The bridge passes tensors as integers of type \<^verbatim>\<open>size_t\<close> that hold the address of an
  \<^verbatim>\<open>at::Tensor\<close> object. An \<^verbatim>\<open>at::Tensor\<close> object is a reference to tensor storage;
  its value is the type parameter \<open>'t\<close>, and the storage behind it is not modelled. The
  live \<^verbatim>\<open>at::Tensor\<close> objects form a store from addresses to values.
\<close>

type_synonym size_t = "64 word"

type_synonym 't heap = "size_t \<Rightarrow> 't option"

record TensorPtr =
  ptr :: size_t

record OwnedTensor =
  ptr :: size_t

record MetadataEntry =
  key :: string
  "value" :: string

section \<open>What the shim calls but does not define\<close>

text \<open>
  \<^verbatim>\<open>torch::inductor::AOTIModelPackageLoader\<close> is only declared in \<^verbatim>\<open>aoti.h\<close>. The shim
  calls its constructor, five member functions and one static function. They are taken as
  a parameter: a record of functions over a loader state \<open>'s\<close>, each member function
  returning the loader state it leaves behind (the shim holds the loader by non-const
  reference). The constructor and the static function are not called on a loader: what
  they can read and change beside their arguments is the state of the library in the
  process, \<open>'w\<close>, which they receive and return. A C++ exception of the library is a
  value of type \<open>'e\<close>.
  \<^verbatim>\<open>get_metadata\<close> returns a \<^verbatim>\<open>std::unordered_map\<close>; the list is the sequence in which a
  range-for visits it. \<^verbatim>\<open>c10::DeviceIndex\<close> is a signed integer type that holds every
  \<^verbatim>\<open>int8_t\<close>, so the constructor receives the index as an \<open>int\<close>.
\<close>

record ('s, 't, 'e, 'w) AOTIModelPackageLoader =
  construct :: "'w \<Rightarrow> string \<Rightarrow> string \<Rightarrow> bool \<Rightarrow> size_t \<Rightarrow> int \<Rightarrow> ('e + 's) \<times> 'w"
  run :: "'s \<Rightarrow> 't list \<Rightarrow> ('e + 't list) \<times> 's"
  boxed_run :: "'s \<Rightarrow> 't list \<Rightarrow> ('e + 't list) \<times> 's"
  get_metadata :: "'s \<Rightarrow> ('e + (string \<times> string) list) \<times> 's"
  get_call_spec :: "'s \<Rightarrow> ('e + string list) \<times> 's"
  get_constant_fqns :: "'s \<Rightarrow> ('e + string list) \<times> 's"
  load_metadata_from_package :: "'w \<Rightarrow> string \<Rightarrow> string \<Rightarrow> ('e + (string \<times> string) list) \<times> 'w"

text \<open>
  How a call of the shim can end without a result:
  \<^item> \<open>Thrown e\<close>: the library threw \<open>e\<close>, and no function of the shim has a handler;
  \<^item> \<open>Bad_Alloc\<close>: \<^verbatim>\<open>new at::Tensor\<close> found no storage;
  \<^item> \<open>Invalid_Argument\<close>: the constructor of \<^verbatim>\<open>rust::String\<close> from a \<^verbatim>\<open>std::string\<close>
    throws \<^verbatim>\<open>std::invalid_argument\<close> when the bytes are not UTF-8;
  \<^item> \<open>Invalid_Pointer\<close>: an input handle does not address a live \<^verbatim>\<open>at::Tensor\<close>. The source
    dereferences the pointer unchecked, so its behaviour is undefined there; the model
    stops at the dereference.
  Storage for the vectors, the strings and the loader object itself is assumed to be
  available.
\<close>

datatype 'e failure = Thrown 'e | Bad_Alloc | Invalid_Argument | Invalid_Pointer

section \<open>The functions of \<^verbatim>\<open>aoti.cc\<close>\<close>

text \<open>
  \<^verbatim>\<open>loader_new\<close>: the two \<^verbatim>\<open>rust::Str\<close> are copied into \<^verbatim>\<open>std::string\<close>s byte by byte,
  the \<^verbatim>\<open>int8_t\<close> is cast to \<^verbatim>\<open>c10::DeviceIndex\<close> (its signed value, \<open>sint\<close>), and the
  constructor is called once, in the process state \<open>w\<close>.
\<close>

definition loader_new ::
  "('s, 't, 'e, 'w) AOTIModelPackageLoader \<Rightarrow> 'w \<Rightarrow> string \<Rightarrow> string \<Rightarrow> bool \<Rightarrow> size_t
     \<Rightarrow> 8 word \<Rightarrow> ('e failure + 's) \<times> 'w" where
  "loader_new rt w model_package_path model_name run_single_threaded num_runners device_index =
     (case construct rt w model_package_path model_name run_single_threaded num_runners
             (sint device_index) of
        (Inl e, w') \<Rightarrow> (Inl (Thrown e), w')
      | (Inr loader, w') \<Rightarrow> (Inr loader, w'))"

text \<open>
  The first loop of \<^verbatim>\<open>loader_run\<close> and \<^verbatim>\<open>loader_boxed_run\<close>: each handle is read as an
  address, the tensor there is copied and pushed onto \<^verbatim>\<open>cpp_inputs\<close>.
\<close>

fun copy_inputs :: "'t heap \<Rightarrow> 't list \<Rightarrow> TensorPtr list \<Rightarrow> 't list option" where
  "copy_inputs h cpp_inputs [] = Some cpp_inputs"
| "copy_inputs h cpp_inputs (t # ts) =
     (case h (TensorPtr.ptr t) of
        None \<Rightarrow> None
      | Some tensor \<Rightarrow> copy_inputs h (cpp_inputs @ [tensor]) ts)"

text \<open>
  The second loop: each output is moved into a tensor object made by \<^verbatim>\<open>new\<close>, whose
  address is pushed onto \<^verbatim>\<open>result\<close>. \<open>new\<close> is \<^verbatim>\<open>operator new\<close> for one \<^verbatim>\<open>at::Tensor\<close>: given
  the live objects it returns an address or fails. When it fails the exception leaves the
  loop, and the objects made so far stay in the store.
\<close>

fun box_outputs ::
  "('t heap \<Rightarrow> size_t option) \<Rightarrow> 't heap \<Rightarrow> OwnedTensor list \<Rightarrow> 't list
     \<Rightarrow> ('e failure + OwnedTensor list) \<times> 't heap" where
  "box_outputs new h result [] = (Inr result, h)"
| "box_outputs new h result (out # outs) =
     (case new h of
        None \<Rightarrow> (Inl Bad_Alloc, h)
      | Some heap_tensor \<Rightarrow>
          box_outputs new (h(heap_tensor \<mapsto> out))
            (result @ [\<lparr>OwnedTensor.ptr = heap_tensor\<rparr>]) outs)"

text \<open>
  \<^verbatim>\<open>loader_run\<close> and \<^verbatim>\<open>loader_boxed_run\<close> return their outcome together with what the call
  leaves behind: the caller's vector \<^verbatim>\<open>inputs\<close>, the loader and the store.
\<close>

definition loader_run ::
  "('t heap \<Rightarrow> size_t option) \<Rightarrow> ('s, 't, 'e, 'w) AOTIModelPackageLoader \<Rightarrow> 's \<Rightarrow> 't heap
     \<Rightarrow> TensorPtr list \<Rightarrow> ('e failure + OwnedTensor list) \<times> TensorPtr list \<times> 's \<times> 't heap" where
  "loader_run new rt loader h inputs =
     (case copy_inputs h [] inputs of
        None \<Rightarrow> (Inl Invalid_Pointer, inputs, loader, h)
      | Some cpp_inputs \<Rightarrow>
          (case run rt loader cpp_inputs of
             (Inl e, loader') \<Rightarrow> (Inl (Thrown e), inputs, loader', h)
           | (Inr outputs, loader') \<Rightarrow>
               (case box_outputs new h [] outputs of
                  (result, h') \<Rightarrow> (result, inputs, loader', h'))))"

definition loader_boxed_run ::
  "('t heap \<Rightarrow> size_t option) \<Rightarrow> ('s, 't, 'e, 'w) AOTIModelPackageLoader \<Rightarrow> 's \<Rightarrow> 't heap
     \<Rightarrow> TensorPtr list \<Rightarrow> ('e failure + OwnedTensor list) \<times> TensorPtr list \<times> 's \<times> 't heap" where
  "loader_boxed_run new rt loader h inputs =
     (case copy_inputs h [] inputs of
        None \<Rightarrow> (Inl Invalid_Pointer, inputs, loader, h)
      | Some cpp_inputs \<Rightarrow>
          (case boxed_run rt loader cpp_inputs of
             (Inl e, loader') \<Rightarrow> (Inl (Thrown e), inputs, loader', h)
           | (Inr outputs, loader') \<Rightarrow>
               (case box_outputs new h [] outputs of
                  (result, h') \<Rightarrow> (result, inputs, loader', h'))))"

text \<open>
  The loop of \<^verbatim>\<open>loader_get_metadata\<close> and \<^verbatim>\<open>loader_load_metadata_from_package\<close>: key and
  value are converted to \<^verbatim>\<open>rust::String\<close> in this order, and the entry is pushed.
  \<open>unicode\<close> tells which byte strings \<^verbatim>\<open>rust::String\<close> accepts.
\<close>

fun push_entries ::
  "(string \<Rightarrow> bool) \<Rightarrow> MetadataEntry list \<Rightarrow> (string \<times> string) list
     \<Rightarrow> 'e failure + MetadataEntry list" where
  "push_entries unicode result [] = Inr result"
| "push_entries unicode result ((k, v) # kvs) =
     (if \<not> unicode k then Inl Invalid_Argument
      else if \<not> unicode v then Inl Invalid_Argument
      else push_entries unicode (result @ [\<lparr>key = k, value = v\<rparr>]) kvs)"

text \<open>The loop of \<^verbatim>\<open>loader_get_call_spec\<close> and \<^verbatim>\<open>loader_get_constant_fqns\<close>.\<close>

fun push_strings ::
  "(string \<Rightarrow> bool) \<Rightarrow> string list \<Rightarrow> string list \<Rightarrow> 'e failure + string list" where
  "push_strings unicode result [] = Inr result"
| "push_strings unicode result (s # ss) =
     (if \<not> unicode s then Inl Invalid_Argument
      else push_strings unicode (result @ [s]) ss)"

definition loader_get_metadata ::
  "(string \<Rightarrow> bool) \<Rightarrow> ('s, 't, 'e, 'w) AOTIModelPackageLoader \<Rightarrow> 's
     \<Rightarrow> ('e failure + MetadataEntry list) \<times> 's" where
  "loader_get_metadata unicode rt loader =
     (case get_metadata rt loader of
        (Inl e, loader') \<Rightarrow> (Inl (Thrown e), loader')
      | (Inr metadata, loader') \<Rightarrow> (push_entries unicode [] metadata, loader'))"

definition loader_get_call_spec ::
  "(string \<Rightarrow> bool) \<Rightarrow> ('s, 't, 'e, 'w) AOTIModelPackageLoader \<Rightarrow> 's
     \<Rightarrow> ('e failure + string list) \<times> 's" where
  "loader_get_call_spec unicode rt loader =
     (case get_call_spec rt loader of
        (Inl e, loader') \<Rightarrow> (Inl (Thrown e), loader')
      | (Inr specs, loader') \<Rightarrow> (push_strings unicode [] specs, loader'))"

definition loader_get_constant_fqns ::
  "(string \<Rightarrow> bool) \<Rightarrow> ('s, 't, 'e, 'w) AOTIModelPackageLoader \<Rightarrow> 's
     \<Rightarrow> ('e failure + string list) \<times> 's" where
  "loader_get_constant_fqns unicode rt loader =
     (case get_constant_fqns rt loader of
        (Inl e, loader') \<Rightarrow> (Inl (Thrown e), loader')
      | (Inr fqns, loader') \<Rightarrow> (push_strings unicode [] fqns, loader'))"

definition loader_load_metadata_from_package ::
  "(string \<Rightarrow> bool) \<Rightarrow> ('s, 't, 'e, 'w) AOTIModelPackageLoader \<Rightarrow> 'w \<Rightarrow> string \<Rightarrow> string
     \<Rightarrow> ('e failure + MetadataEntry list) \<times> 'w" where
  "loader_load_metadata_from_package unicode rt w model_package_path model_name =
     (case load_metadata_from_package rt w model_package_path model_name of
        (Inl e, w') \<Rightarrow> (Inl (Thrown e), w')
      | (Inr metadata, w') \<Rightarrow> (push_entries unicode [] metadata, w'))"

section \<open>The contract of \<^verbatim>\<open>operator new\<close>\<close>

text \<open>
  C++ gives one guarantee about the address \<^verbatim>\<open>new\<close> returns: no live object is stored
  there. Nothing is promised about addresses whose object has been deleted.
\<close>

definition fresh_allocator :: "('t heap \<Rightarrow> size_t option) \<Rightarrow> bool" where
  "fresh_allocator new \<longleftrightarrow> (\<forall>h a. new h = Some a \<longrightarrow> h a = None)"

text \<open>
  \<^verbatim>\<open>new\<close> has room for a sequence of tensors in a store: it finds storage for the first,
  and with the first stored for the second, and so on.
\<close>

fun has_room :: "('t heap \<Rightarrow> size_t option) \<Rightarrow> 't heap \<Rightarrow> 't list \<Rightarrow> bool" where
  "has_room new h [] = True"
| "has_room new h (x # xs) =
     (case new h of
        None \<Rightarrow> False
      | Some a \<Rightarrow> has_room new (h(a \<mapsto> x)) xs)"

text \<open>The tensors that a sequence of owned handles addresses in a store.\<close>

definition tensors_at :: "'t heap \<Rightarrow> OwnedTensor list \<Rightarrow> 't option list" where
  "tensors_at h result = map (\<lambda>ot. h (OwnedTensor.ptr ot)) result"

text \<open>Calling \<^verbatim>\<open>loader_get_call_spec\<close> \<open>n\<close> times in a row on one loader.\<close>

fun get_call_spec_times ::
  "nat \<Rightarrow> (string \<Rightarrow> bool) \<Rightarrow> ('s, 't, 'e, 'w) AOTIModelPackageLoader \<Rightarrow> 's
     \<Rightarrow> ('e failure + string list) list \<times> 's" where
  "get_call_spec_times 0 unicode rt loader = ([], loader)"
| "get_call_spec_times (Suc n) unicode rt loader =
     (case loader_get_call_spec unicode rt loader of
        (r, loader') \<Rightarrow>
          (case get_call_spec_times n unicode rt loader' of
             (rs, loader'') \<Rightarrow> (r # rs, loader'')))"

text \<open>
  Calling \<^verbatim>\<open>loader_load_metadata_from_package\<close> \<open>n\<close> times in a row, each call in the
  process state the call before it left.
\<close>

fun load_metadata_times ::
  "nat \<Rightarrow> (string \<Rightarrow> bool) \<Rightarrow> ('s, 't, 'e, 'w) AOTIModelPackageLoader \<Rightarrow> 'w \<Rightarrow> string
     \<Rightarrow> string \<Rightarrow> ('e failure + MetadataEntry list) list \<times> 'w" where
  "load_metadata_times 0 unicode rt w path name = ([], w)"
| "load_metadata_times (Suc n) unicode rt w path name =
     (case loader_load_metadata_from_package unicode rt w path name of
        (r, w') \<Rightarrow>
          (case load_metadata_times n unicode rt w' path name of
             (rs, w'') \<Rightarrow> (r # rs, w'')))"

text \<open>The mapping that a sequence of metadata entries stands for.\<close>

definition mapping_of :: "MetadataEntry list \<Rightarrow> string \<Rightarrow> string option" where
  "mapping_of entries = map_of (map (\<lambda>e. (key e, MetadataEntry.value e)) entries)"

section \<open>The wrapped loader as the specification describes it\<close>

text \<open>
  Modelled from the spec: the error taxonomy of section 7. The source has no error type of
  its own; these are the failures the specification expects of the wrapped loader.
  \<open>ExecutionError\<close> carries the diagnostic text.
\<close>

datatype error =
  PackageNotFoundError | PackageFormatError | DeviceUnavailableError | InvalidHandleError
| ExecutionError string

text \<open>
  Modelled from the spec: a Model Package (sections 2 and 3), the on-disk artifact whose
  reader is the wrapped loader and is missing from the source: metadata as key-value
  pairs, the call spec, the constant names, and the compiled entry point, which returns
  output tensors or fails with a diagnostic text.
\<close>

record 't package =
  metadata :: "(string \<times> string) list"
  call_spec :: "string list"
  constant_fqns :: "string list"
  entry_point :: "'t list \<Rightarrow> string + 't list"

text \<open>
  Modelled from the spec: the metadata of a package is a mapping with unique keys whose
  keys and values are strings (section 3), that is, text that \<open>unicode\<close> accepts.
\<close>

definition valid_metadata :: "(string \<Rightarrow> bool) \<Rightarrow> 't package \<Rightarrow> bool" where
  "valid_metadata unicode p \<longleftrightarrow>
     distinct (map fst (metadata p)) \<and> list_all unicode (map fst (metadata p))
     \<and> list_all unicode (map snd (metadata p))"

text \<open>
  Modelled from the spec: a well-formed package (section 4.1). Its metadata is valid, its
  call spec and constant names are strings, and its call spec is not empty (section 8,
  first property).
\<close>

definition well_formed :: "(string \<Rightarrow> bool) \<Rightarrow> 't package \<Rightarrow> bool" where
  "well_formed unicode p \<longleftrightarrow>
     valid_metadata unicode p \<and> call_spec p \<noteq> [] \<and> list_all unicode (call_spec p)
     \<and> list_all unicode (constant_fqns p)"

text \<open>
  Modelled from the spec: what is outside the loader, missing from the source: the
  packages that a path and a model name resolve to, the indices of the available compute
  devices, and the sentinel index that means host-only execution (section 4.1).
\<close>

record 't environment =
  packages :: "string \<times> string \<Rightarrow> 't package option"
  devices :: "int list"
  host_only :: int

text \<open>
  Modelled from the spec: what a runner of the pool is bound to (sections 2 and 4.1).
\<close>

datatype placement = Host | Device int

text \<open>
  Modelled from the spec: the ModelPackageHandle of section 3, with the attributes listed
  there, the loaded model and the runner pool.
\<close>

record 't ModelPackageHandle =
  source_path :: string
  selected_model :: string
  single_threaded :: bool
  runner_count :: size_t
  target_device :: int
  loaded_model :: "'t package"
  runner_pool :: "placement list"

text \<open>
  Modelled from the spec: the state of the wrapped loader's library in the process, which
  the constructor and the static reader could share: the runner pools allocated so far.
  Allocating the pool is the side effect of \<^verbatim>\<open>open\<close> (section 4.1), and the runner pool
  is the only shared mutable resource (section 5).
\<close>

record process =
  allocated_pools :: "placement list list"

text \<open>
  Modelled from the spec: \<^verbatim>\<open>open\<close> of section 4.1, the constructor of the wrapped loader.
  An index that is neither the sentinel nor an available device fails with
  \<open>DeviceUnavailableError\<close>; a missing package with \<open>PackageNotFoundError\<close>; a malformed one
  with \<open>PackageFormatError\<close>. The specification gives each failure without condition and
  no order between the checks; the device is checked first here. The pool has
  \<^verbatim>\<open>num_runners\<close> runners, exactly one when single-threaded, each bound to the device or
  to the host; allocating it is the side effect of a successful call, and a failed call
  leaves nothing behind (section 4.3).
\<close>

definition spec_open ::
  "(string \<Rightarrow> bool) \<Rightarrow> 't environment \<Rightarrow> process \<Rightarrow> string \<Rightarrow> string \<Rightarrow> bool \<Rightarrow> size_t
     \<Rightarrow> int \<Rightarrow> (error + 't ModelPackageHandle) \<times> process" where
  "spec_open unicode env w path name single num_runners device_index =
     (if device_index \<noteq> host_only env \<and> device_index \<notin> set (devices env)
      then (Inl DeviceUnavailableError, w)
      else case packages env (path, name) of
        None \<Rightarrow> (Inl PackageNotFoundError, w)
      | Some p \<Rightarrow>
          if \<not> well_formed unicode p then (Inl PackageFormatError, w)
          else
            let pool = replicate (if single then 1 else unat num_runners)
                         (if device_index = host_only env then Host
                          else Device device_index)
            in (Inr \<lparr>source_path = path, selected_model = name, single_threaded = single,
                      runner_count = num_runners, target_device = device_index,
                      loaded_model = p, runner_pool = pool\<rparr>,
                w\<lparr>allocated_pools := pool # allocated_pools w\<rparr>))"

text \<open>
  Modelled from the spec: \<^verbatim>\<open>run\<close> of section 4.3 on the wrapped loader. The entry point
  is run on the inputs; its failure is an \<open>ExecutionError\<close> with the text preserved. The
  handle is not changed. The choice of a runner (section 5) is not modelled.
\<close>

definition spec_run ::
  "'t ModelPackageHandle \<Rightarrow> 't list \<Rightarrow> (error + 't list) \<times> 't ModelPackageHandle" where
  "spec_run H inputs =
     (case entry_point (loaded_model H) inputs of
        Inl text \<Rightarrow> (Inl (ExecutionError text), H)
      | Inr outputs \<Rightarrow> (Inr outputs, H))"

text \<open>
  Modelled from the spec: \<^verbatim>\<open>boxed_run\<close> of section 4.3 on the wrapped loader,
  semantically equivalent to \<^verbatim>\<open>run\<close>; that the input storage may be reused afterwards
  is a hint with the same observable results (section 9).
\<close>

definition spec_boxed_run ::
  "'t ModelPackageHandle \<Rightarrow> 't list \<Rightarrow> (error + 't list) \<times> 't ModelPackageHandle" where
  "spec_boxed_run H inputs = spec_run H inputs"

text \<open>
  Modelled from the spec: the static \<^verbatim>\<open>load_metadata_from_package\<close> of section 4.1 on
  the wrapped loader. It resolves the package and reads its metadata; nothing else of the
  package and nothing else of the environment is looked at, no runner is constructed,
  and the state of the process is neither read nor changed.
\<close>

definition spec_load_metadata_from_package ::
  "(string \<Rightarrow> bool) \<Rightarrow> 't environment \<Rightarrow> process \<Rightarrow> string \<Rightarrow> string
     \<Rightarrow> (error + (string \<times> string) list) \<times> process" where
  "spec_load_metadata_from_package unicode env w path name =
     (case packages env (path, name) of
        None \<Rightarrow> (Inl PackageNotFoundError, w)
      | Some p \<Rightarrow>
          if \<not> valid_metadata unicode p then (Inl PackageFormatError, w)
          else (Inr (metadata p), w))"

text \<open>
  Modelled from the spec: the wrapped loader as a whole. The three reads of section 4.2
  return what the loaded package holds and have no side effect.
\<close>

definition spec_runtime ::
  "(string \<Rightarrow> bool) \<Rightarrow> 't environment
     \<Rightarrow> ('t ModelPackageHandle, 't, error, process) AOTIModelPackageLoader" where
  "spec_runtime unicode env =
     \<lparr>construct = spec_open unicode env,
      run = spec_run,
      boxed_run = spec_boxed_run,
      get_metadata = (\<lambda>H. (Inr (metadata (loaded_model H)), H)),
      get_call_spec = (\<lambda>H. (Inr (call_spec (loaded_model H)), H)),
      get_constant_fqns = (\<lambda>H. (Inr (constant_fqns (loaded_model H)), H)),
      load_metadata_from_package = spec_load_metadata_from_package unicode env\<rparr>"

text \<open>
  Modelled from the spec: the release of an owned handle by its owner (section 3), which
  the caller's side of the bridge does and the source does not contain: the tensor object
  is deleted.
\<close>

definition release :: "'t heap \<Rightarrow> OwnedTensor \<Rightarrow> 't heap" where
  "release h ot = h(OwnedTensor.ptr ot := None)"

section \<open>Concrete instances\<close>

text \<open>
  An allocator that hands out the first free cell of an arena, byte strings of 7-bit
  characters as the accepted text, a loader that returns its inputs in reverse order, a
  loader whose every operation throws and counts the call in the state it leaves, and an
  environment with one package and one device, whose sentinel is \<open>-1\<close>.
\<close>

definition first_fit :: "size_t list \<Rightarrow> 't heap \<Rightarrow> size_t option" where
  "first_fit arena h = find (\<lambda>a. h a = None) arena"

definition ascii :: "string \<Rightarrow> bool" where
  "ascii s = list_all (\<lambda>c. of_char c < (128::nat)) s"

definition reversing_loader :: "(unit, nat, string, unit) AOTIModelPackageLoader" where
  "reversing_loader =
     \<lparr>construct = (\<lambda>w path name single n d. (Inr (), w)),
      run = (\<lambda>l xs. (Inr (rev xs), l)),
      boxed_run = (\<lambda>l xs. (Inr (rev xs), l)),
      get_metadata = (\<lambda>l. (Inr [(''device'', ''cpu'')], l)),
      get_call_spec = (\<lambda>l. (Inr [''input_0'', ''output_0''], l)),
      get_constant_fqns = (\<lambda>l. (Inr [''fc.weight''], l)),
      load_metadata_from_package = (\<lambda>w path name. (Inr [(''device'', ''cpu'')], w))\<rparr>"

definition throwing_loader :: "(nat, nat, string, nat) AOTIModelPackageLoader" where
  "throwing_loader =
     \<lparr>construct = (\<lambda>w path name single n d. (Inl ''no such file'', Suc w)),
      run = (\<lambda>l xs. (Inl ''shape mismatch'', Suc l)),
      boxed_run = (\<lambda>l xs. (Inl ''shape mismatch'', Suc l)),
      get_metadata = (\<lambda>l. (Inl ''no metadata'', Suc l)),
      get_call_spec = (\<lambda>l. (Inl ''no call spec'', Suc l)),
      get_constant_fqns = (\<lambda>l. (Inl ''no constants'', Suc l)),
      load_metadata_from_package = (\<lambda>w path name. (Inl ''no such file'', Suc w))\<rparr>"

definition resnet :: "nat package" where
  "resnet =
     \<lparr>metadata = [(''device'', ''cuda''), (''version'', ''2'')],
      call_spec = [''input_0'', ''output_0''],
      constant_fqns = [''fc.weight''],
      entry_point = (\<lambda>xs. if length xs = 1 then Inr (map Suc xs) else Inl ''arity'')\<rparr>"

definition one_device :: "nat environment" where
  "one_device =
     \<lparr>packages = (\<lambda>pm. if pm = (''resnet.pt2'', ''forward'') then Some resnet else None),
      devices = [0],
      host_only = - 1\<rparr>"

text \<open>The handle of the package \<open>resnet\<close> with two runners on device 0.\<close>

definition resnet_handle :: "nat ModelPackageHandle" where
  "resnet_handle =
     \<lparr>source_path = ''resnet.pt2'', selected_model = ''forward'', single_threaded = False,
      runner_count = 2, target_device = 0, loaded_model = resnet,
      runner_pool = [Device 0, Device 0]\<rparr>"

section \<open>The two loops\<close>

lemma copy_inputs_eq:
  "copy_inputs h acc ts =
     (if \<forall>t \<in> set ts. h (TensorPtr.ptr t) \<noteq> None
      then Some (acc @ map (\<lambda>t. the (h (TensorPtr.ptr t))) ts) else None)"
  by (induction ts arbitrary: acc) (auto split: option.splits)

lemma box_outputs_frame:
  "fresh_allocator new \<Longrightarrow> box_outputs new h res outs = (r, h') \<Longrightarrow> h a = Some x
     \<Longrightarrow> h' a = Some x"
proof (induction outs arbitrary: h res)
  case Nil
  then show ?case by simp
next
  case (Cons out outs)
  show ?case
  proof (cases "new h")
    case None
    with Cons.prems show ?thesis by simp
  next
    case (Some p)
    with Cons.prems(1) have free: "h p = None"
      by (simp add: fresh_allocator_def)
    with Cons.prems(3) have "(h(p \<mapsto> out)) a = Some x" by auto
    moreover from Cons.prems(2) Some
    have "box_outputs new (h(p \<mapsto> out)) (res @ [\<lparr>OwnedTensor.ptr = p\<rparr>]) outs = (r, h')"
      by simp
    ultimately show ?thesis using Cons.IH Cons.prems(1) by blast
  qed
qed

lemma box_outputs_result:
  "fresh_allocator new \<Longrightarrow> box_outputs new h res outs = (Inr res' :: 'e failure + OwnedTensor list, h') \<Longrightarrow>
     \<exists>made. res' = res @ made \<and> tensors_at h' made = map Some outs
       \<and> distinct (map OwnedTensor.ptr made)
       \<and> (\<forall>ot \<in> set made. h (OwnedTensor.ptr ot) = None)"
proof (induction outs arbitrary: h res)
  case Nil
  then show ?case by (simp add: tensors_at_def)
next
  case (Cons out outs)
  show ?case
  proof (cases "new h")
    case None
    with Cons.prems show ?thesis by simp
  next
    case (Some p)
    let ?h1 = "h(p \<mapsto> out)"
    from Some Cons.prems(1) have free: "h p = None"
      by (simp add: fresh_allocator_def)
    from Cons.prems(2) Some
    have rest: "box_outputs new ?h1 (res @ [\<lparr>OwnedTensor.ptr = p\<rparr>]) outs
             = (Inr res' :: 'e failure + OwnedTensor list, h')"
      by simp
    from Cons.IH [OF Cons.prems(1) rest]
    obtain made where made:
      "res' = (res @ [\<lparr>OwnedTensor.ptr = p\<rparr>]) @ made"
      "tensors_at h' made = map Some outs"
      "distinct (map OwnedTensor.ptr made)"
      "\<forall>ot \<in> set made. ?h1 (OwnedTensor.ptr ot) = None"
      by blast
    have kept: "h' p = Some out"
      using box_outputs_frame [OF Cons.prems(1) rest, of p out] by simp
    have notp: "\<forall>ot \<in> set made. OwnedTensor.ptr ot \<noteq> p"
      using made(4) by auto
    let ?made = "\<lparr>OwnedTensor.ptr = p\<rparr> # made"
    have "res' = res @ ?made" using made(1) by simp
    moreover have "tensors_at h' ?made = map Some (out # outs)"
      using made(2) kept by (simp add: tensors_at_def)
    moreover have "distinct (map OwnedTensor.ptr ?made)"
      using made(3) notp by auto
    moreover have "\<forall>ot \<in> set ?made. h (OwnedTensor.ptr ot) = None"
      using made(4) free by (auto split: if_splits)
    ultimately show ?thesis by blast
  qed
qed

lemma box_outputs_outcome:
  "box_outputs new h res outs = (r, h') \<Longrightarrow> r = Inl Bad_Alloc \<or> (\<exists>res'. r = Inr res')"
  by (induction outs arbitrary: h res) (auto split: option.splits)

lemma box_outputs_no_invalid_pointer:
  "box_outputs new h res outs = (Inl Invalid_Pointer, h') \<Longrightarrow> False"
  using box_outputs_outcome by fastforce

lemma box_outputs_returns:
  "has_room new h outs \<Longrightarrow>
     \<exists>res' h'. box_outputs new h res outs = (Inr res' :: 'e failure + OwnedTensor list, h')"
  by (induction outs arbitrary: h res) (auto split: option.splits)

lemma box_outputs_full:
  "\<not> has_room new h outs \<Longrightarrow>
     fst (box_outputs new h res outs :: ('e failure + OwnedTensor list) \<times> 't heap) = Inl Bad_Alloc"
  by (induction outs arbitrary: h res) (auto split: option.splits)

lemma first_fit_fresh: "fresh_allocator (first_fit arena)"
  by (auto simp: fresh_allocator_def first_fit_def find_Some_iff)

lemma loader_run_returns:
  "loader_run new rt loader h inputs
       = (Inr result :: 'e failure + OwnedTensor list, inputs', loader', h') \<Longrightarrow>
     \<exists>cpp_inputs outputs. copy_inputs h [] inputs = Some cpp_inputs
       \<and> run rt loader cpp_inputs = (Inr outputs, loader')
       \<and> box_outputs new h [] outputs = (Inr result :: 'e failure + OwnedTensor list, h')
       \<and> inputs' = inputs"
  by (auto simp: loader_run_def split: option.splits prod.splits sum.splits)

lemma loader_boxed_run_returns:
  "loader_boxed_run new rt loader h inputs
       = (Inr result :: 'e failure + OwnedTensor list, inputs', loader', h') \<Longrightarrow>
     \<exists>cpp_inputs outputs. copy_inputs h [] inputs = Some cpp_inputs
       \<and> boxed_run rt loader cpp_inputs = (Inr outputs, loader')
       \<and> box_outputs new h [] outputs = (Inr result :: 'e failure + OwnedTensor list, h')
       \<and> inputs' = inputs"
  by (auto simp: loader_boxed_run_def split: option.splits prod.splits sum.splits)

lemma copy_inputs_live:
  "copy_inputs h acc ts = Some xs \<Longrightarrow> t \<in> set ts \<Longrightarrow> h (TensorPtr.ptr t) \<noteq> None"
  by (simp add: copy_inputs_eq split: if_splits)

lemma demo_run:
  "loader_run (first_fit [1, 2, 3, 4]) reversing_loader () [1 \<mapsto> 10, 2 \<mapsto> 20]
       [\<lparr>TensorPtr.ptr = 1\<rparr>, \<lparr>TensorPtr.ptr = 2\<rparr>]
     = (Inr [\<lparr>OwnedTensor.ptr = 3\<rparr>, \<lparr>OwnedTensor.ptr = 4\<rparr>],
        [\<lparr>TensorPtr.ptr = 1\<rparr>, \<lparr>TensorPtr.ptr = 2\<rparr>], (),
        [1 \<mapsto> 10, 2 \<mapsto> 20, 3 \<mapsto> 20, 4 \<mapsto> 10])"
  by (simp add: loader_run_def reversing_loader_def first_fit_def)

lemma demo_boxed_run:
  "loader_boxed_run (first_fit [1, 2, 3, 4]) reversing_loader () [1 \<mapsto> 10, 2 \<mapsto> 20]
       [\<lparr>TensorPtr.ptr = 1\<rparr>, \<lparr>TensorPtr.ptr = 2\<rparr>]
     = (Inr [\<lparr>OwnedTensor.ptr = 3\<rparr>, \<lparr>OwnedTensor.ptr = 4\<rparr>],
        [\<lparr>TensorPtr.ptr = 1\<rparr>, \<lparr>TensorPtr.ptr = 2\<rparr>], (),
        [1 \<mapsto> 10, 2 \<mapsto> 20, 3 \<mapsto> 20, 4 \<mapsto> 10])"
  by (simp add: loader_boxed_run_def reversing_loader_def first_fit_def)

section \<open>Output handles\<close>

text \<open>
  Claim C1, as amended. When \<^verbatim>\<open>loader_run\<close> returns, every input handle addresses a
  live tensor object, every output handle is the address of a tensor object that was not
  live when the call was made and is live afterwards, no output handle equals an input
  handle, and the output handles of the call are pairwise different. So an output handle
  differs from every handle that is still live at the call, the outputs of earlier calls
  that have not been released among them.
\<close>

theorem loader_run_outputs_fresh:
  assumes new: "fresh_allocator new"
    and call: "loader_run new rt loader h inputs
                 = (Inr result :: 'e failure + OwnedTensor list, inputs', loader', h')"
  shows "(\<forall>t \<in> set inputs. h (TensorPtr.ptr t) \<noteq> None)
       \<and> (\<forall>ot \<in> set result. h (OwnedTensor.ptr ot) = None \<and> h' (OwnedTensor.ptr ot) \<noteq> None)
       \<and> (\<forall>ot \<in> set result. \<forall>t \<in> set inputs. OwnedTensor.ptr ot \<noteq> TensorPtr.ptr t)
       \<and> distinct (map OwnedTensor.ptr result)"
proof -
  from loader_run_returns [OF call] obtain cpp_inputs outputs where
    read: "copy_inputs h [] inputs = Some cpp_inputs" and
    box: "box_outputs new h [] outputs = (Inr result :: 'e failure + OwnedTensor list, h')"
    by blast
  from box_outputs_result [OF new box] obtain made where
    made: "result = [] @ made" "tensors_at h' made = map Some outputs"
      "distinct (map OwnedTensor.ptr made)" "\<forall>ot \<in> set made. h (OwnedTensor.ptr ot) = None"
    by blast
  have live: "\<forall>t \<in> set inputs. h (TensorPtr.ptr t) \<noteq> None"
    using copy_inputs_live [OF read] by blast
  have fresh: "\<forall>ot \<in> set result. h (OwnedTensor.ptr ot) = None"
    using made(1,4) by simp
  have stored: "\<forall>ot \<in> set result. h' (OwnedTensor.ptr ot) \<noteq> None"
  proof
    fix ot assume "ot \<in> set result"
    then have "h' (OwnedTensor.ptr ot) \<in> set (tensors_at h' made)"
      using made(1) by (simp add: tensors_at_def)
    then show "h' (OwnedTensor.ptr ot) \<noteq> None"
      using made(2) by auto
  qed
  have apart: "\<forall>ot \<in> set result. \<forall>t \<in> set inputs. OwnedTensor.ptr ot \<noteq> TensorPtr.ptr t"
    using live fresh by metis
  show ?thesis
    using live fresh stored apart made(1,3) by simp
qed

theorem loader_run_outputs_fresh_witness:
  "fresh_allocator (first_fit [1, 2, 3, 4 :: size_t] :: nat heap \<Rightarrow> size_t option)
   \<and> fst (loader_run (first_fit [1, 2, 3, 4]) reversing_loader () [1 \<mapsto> 10, 2 \<mapsto> 20]
            [\<lparr>TensorPtr.ptr = 1\<rparr>, \<lparr>TensorPtr.ptr = 2\<rparr>])
       = Inr [\<lparr>OwnedTensor.ptr = 3\<rparr>, \<lparr>OwnedTensor.ptr = 4\<rparr>]
   \<and> [1 \<mapsto> 10, 2 \<mapsto> 20 :: nat] (3 :: size_t) = None
   \<and> [1 \<mapsto> 10, 2 \<mapsto> 20 :: nat] (4 :: size_t) = None
   \<and> distinct (map OwnedTensor.ptr [\<lparr>OwnedTensor.ptr = 3\<rparr>, \<lparr>OwnedTensor.ptr = 4\<rparr>])"
  using loader_run_outputs_fresh [OF first_fit_fresh demo_run] first_fit_fresh demo_run
  by simp


text \<open>
  Claim C1 as stated fails: it asks for a handle different from every output of every
  earlier call. A call returns the handle 2; the caller releases it; the same call made
  again returns the handle 2 again, since the allocator may reuse the address of a
  deleted object.
\<close>

theorem rerun_after_release_reuses_address:
  "fst (loader_run (first_fit [1, 2, 3]) reversing_loader () [1 \<mapsto> 10]
          [\<lparr>TensorPtr.ptr = 1\<rparr>])
     = Inr [\<lparr>OwnedTensor.ptr = 2\<rparr>]
   \<and> fst (loader_run (first_fit [1, 2, 3]) reversing_loader ()
            (release
               (snd (snd (snd (loader_run (first_fit [1, 2, 3]) reversing_loader ()
                                 [1 \<mapsto> 10] [\<lparr>TensorPtr.ptr = 1\<rparr>]))))
               \<lparr>OwnedTensor.ptr = 2\<rparr>)
            [\<lparr>TensorPtr.ptr = 1\<rparr>])
     = Inr [\<lparr>OwnedTensor.ptr = 2\<rparr>]"
  by (simp add: loader_run_def reversing_loader_def first_fit_def release_def)

lemma tensors_at_nth:
  "tensors_at h result = map Some outputs \<Longrightarrow>
     length result = length outputs
     \<and> (\<forall>i < length outputs. h (OwnedTensor.ptr (result ! i)) = Some (outputs ! i))"
proof
  assume eq: "tensors_at h result = map Some outputs"
  then have "length (tensors_at h result) = length (map Some outputs)" by simp
  then show len: "length result = length outputs" by (simp add: tensors_at_def)
  show "\<forall>i < length outputs. h (OwnedTensor.ptr (result ! i)) = Some (outputs ! i)"
  proof (intro allI impI)
    fix i assume i: "i < length outputs"
    then have "tensors_at h result ! i = map Some outputs ! i" using eq by simp
    with i len show "h (OwnedTensor.ptr (result ! i)) = Some (outputs ! i)"
      by (simp add: tensors_at_def)
  qed
qed

lemma loader_run_frame:
  assumes new: "fresh_allocator new"
    and call: "loader_run new rt loader h inputs
                 = (r :: 'e failure + OwnedTensor list, inputs', loader', h')"
  shows "inputs' = inputs \<and> (\<forall>a x. h a = Some x \<longrightarrow> h' a = Some x)"
proof (cases "copy_inputs h [] inputs")
  case None
  with call show ?thesis by (simp add: loader_run_def)
next
  case (Some cpp_inputs)
  obtain res l1 where rt: "run rt loader cpp_inputs = (res, l1)" by (cases "run rt loader cpp_inputs")
  show ?thesis
  proof (cases res)
    case (Inl e)
    with call Some rt show ?thesis by (simp add: loader_run_def)
  next
    case (Inr outputs)
    obtain r1 h1 where box: "box_outputs new h [] outputs = (r1 :: 'e failure + OwnedTensor list, h1)"
      by (cases "box_outputs new h [] outputs :: ('e failure + OwnedTensor list) \<times> _")
    with call Some rt Inr have "inputs' = inputs" "h' = h1"
      by (simp_all add: loader_run_def)
    with box_outputs_frame [OF new box] show ?thesis by blast
  qed
qed

lemma loader_boxed_run_frame:
  assumes new: "fresh_allocator new"
    and call: "loader_boxed_run new rt loader h inputs
                 = (r :: 'e failure + OwnedTensor list, inputs', loader', h')"
  shows "inputs' = inputs \<and> (\<forall>a x. h a = Some x \<longrightarrow> h' a = Some x)"
proof (cases "copy_inputs h [] inputs")
  case None
  with call show ?thesis by (simp add: loader_boxed_run_def)
next
  case (Some cpp_inputs)
  obtain res l1 where rt: "boxed_run rt loader cpp_inputs = (res, l1)"
    by (cases "boxed_run rt loader cpp_inputs")
  show ?thesis
  proof (cases res)
    case (Inl e)
    with call Some rt show ?thesis by (simp add: loader_boxed_run_def)
  next
    case (Inr outputs)
    obtain r1 h1 where box: "box_outputs new h [] outputs = (r1 :: 'e failure + OwnedTensor list, h1)"
      by (cases "box_outputs new h [] outputs :: ('e failure + OwnedTensor list) \<times> _")
    with call Some rt Inr have "inputs' = inputs" "h' = h1"
      by (simp_all add: loader_boxed_run_def)
    with box_outputs_frame [OF new box] show ?thesis by blast
  qed
qed

lemma loader_run_wraps:
  assumes new: "fresh_allocator new"
    and call: "loader_run new rt loader h inputs
                 = (Inr result :: 'e failure + OwnedTensor list, inputs', loader', h')"
  shows "\<exists>cpp_inputs outputs. copy_inputs h [] inputs = Some cpp_inputs
           \<and> run rt loader cpp_inputs = (Inr outputs, loader')
           \<and> tensors_at h' result = map Some outputs"
proof -
  from loader_run_returns [OF call] obtain cpp_inputs outputs where
    *: "copy_inputs h [] inputs = Some cpp_inputs"
       "run rt loader cpp_inputs = (Inr outputs, loader')"
       "box_outputs new h [] outputs = (Inr result :: 'e failure + OwnedTensor list, h')"
    by blast
  from box_outputs_result [OF new *(3)] have "tensors_at h' result = map Some outputs"
    by auto
  with * show ?thesis by blast
qed

lemma loader_boxed_run_wraps:
  assumes new: "fresh_allocator new"
    and call: "loader_boxed_run new rt loader h inputs
                 = (Inr result :: 'e failure + OwnedTensor list, inputs', loader', h')"
  shows "\<exists>cpp_inputs outputs. copy_inputs h [] inputs = Some cpp_inputs
           \<and> boxed_run rt loader cpp_inputs = (Inr outputs, loader')
           \<and> tensors_at h' result = map Some outputs"
proof -
  from loader_boxed_run_returns [OF call] obtain cpp_inputs outputs where
    *: "copy_inputs h [] inputs = Some cpp_inputs"
       "boxed_run rt loader cpp_inputs = (Inr outputs, loader')"
       "box_outputs new h [] outputs = (Inr result :: 'e failure + OwnedTensor list, h')"
    by blast
  from box_outputs_result [OF new *(3)] have "tensors_at h' result = map Some outputs"
    by auto
  with * show ?thesis by blast
qed

lemma loader_run_result:
  assumes new: "fresh_allocator new"
    and read: "copy_inputs h [] inputs = Some cpp_inputs"
    and rt: "run (rt :: ('s, 't, 'e, 'w) AOTIModelPackageLoader) loader cpp_inputs
               = (Inr outputs, loader')"
    and room: "has_room new h outputs"
  shows "\<exists>result h'. loader_run new rt loader h inputs = (Inr result, inputs, loader', h')
           \<and> tensors_at h' result = map Some outputs"
proof -
  from box_outputs_returns [OF room, of "[]"] obtain result h' where
    box: "box_outputs new h [] outputs = (Inr result :: 'e failure + OwnedTensor list, h')"
    by blast
  with read rt have call: "loader_run new rt loader h inputs = (Inr result, inputs, loader', h')"
    by (simp add: loader_run_def)
  from box_outputs_result [OF new box] have "tensors_at h' result = map Some outputs"
    by auto
  with call show ?thesis by blast
qed

lemma loader_boxed_run_result:
  assumes new: "fresh_allocator new"
    and read: "copy_inputs h [] inputs = Some cpp_inputs"
    and rt: "boxed_run (rt :: ('s, 't, 'e, 'w) AOTIModelPackageLoader) loader cpp_inputs
               = (Inr outputs, loader')"
    and room: "has_room new h outputs"
  shows "\<exists>result h'. loader_boxed_run new rt loader h inputs = (Inr result, inputs, loader', h')
           \<and> tensors_at h' result = map Some outputs"
proof -
  from box_outputs_returns [OF room, of "[]"] obtain result h' where
    box: "box_outputs new h [] outputs = (Inr result :: 'e failure + OwnedTensor list, h')"
    by blast
  with read rt
  have call: "loader_boxed_run new rt loader h inputs = (Inr result, inputs, loader', h')"
    by (simp add: loader_boxed_run_def)
  from box_outputs_result [OF new box] have "tensors_at h' result = map Some outputs"
    by auto
  with call show ?thesis by blast
qed

lemma demo_copy:
  "copy_inputs [1 \<mapsto> 10, 2 \<mapsto> 20 :: nat] []
     [\<lparr>TensorPtr.ptr = 1\<rparr>, \<lparr>TensorPtr.ptr = 2\<rparr>] = Some [10, 20]"
  by simp

section \<open>Order of the outputs\<close>

text \<open>
  Claim C4. When the wrapped loader returns a sequence of tensors, \<^verbatim>\<open>loader_run\<close> (and
  likewise \<^verbatim>\<open>loader_boxed_run\<close>) returns if \<^verbatim>\<open>new\<close> has room for them and ends with
  \<open>Bad_Alloc\<close> if not; and whenever it returns, the returned sequence has as many handles
  as the wrapped loader returned tensors, and for every position \<open>i\<close> the \<open>i\<close>-th handle
  addresses the \<open>i\<close>-th tensor the wrapped loader returned.
\<close>

theorem outputs_in_runtime_order:
  assumes new: "fresh_allocator new"
    and read: "copy_inputs h [] inputs = Some cpp_inputs"
  shows "(run (rt :: ('s, 't, 'e, 'w) AOTIModelPackageLoader) loader cpp_inputs
            = (Inr outputs, loader') \<longrightarrow>
            (has_room new h outputs \<longrightarrow>
               (\<exists>result h'. loader_run new rt loader h inputs
                               = (Inr result, inputs, loader', h')))
            \<and> (\<not> has_room new h outputs \<longrightarrow>
                 fst (loader_run new rt loader h inputs) = Inl Bad_Alloc)
            \<and> (\<forall>result inputs' loader'' h'.
                  loader_run new rt loader h inputs = (Inr result, inputs', loader'', h') \<longrightarrow>
                  length result = length outputs
                  \<and> (\<forall>i < length outputs.
                        h' (OwnedTensor.ptr (result ! i)) = Some (outputs ! i))))
       \<and> (boxed_run rt loader cpp_inputs = (Inr outputs, loader') \<longrightarrow>
            (has_room new h outputs \<longrightarrow>
               (\<exists>result h'. loader_boxed_run new rt loader h inputs
                               = (Inr result, inputs, loader', h')))
            \<and> (\<not> has_room new h outputs \<longrightarrow>
                 fst (loader_boxed_run new rt loader h inputs) = Inl Bad_Alloc)
            \<and> (\<forall>result inputs' loader'' h'.
                  loader_boxed_run new rt loader h inputs
                    = (Inr result, inputs', loader'', h') \<longrightarrow>
                  length result = length outputs
                  \<and> (\<forall>i < length outputs.
                        h' (OwnedTensor.ptr (result ! i)) = Some (outputs ! i))))"
proof (intro conjI impI)
  assume rt: "run rt loader cpp_inputs = (Inr outputs, loader')"
  show "has_room new h outputs \<Longrightarrow>
          \<exists>result h'. loader_run new rt loader h inputs = (Inr result, inputs, loader', h')"
    using loader_run_result [OF new read rt] by blast
  show "\<not> has_room new h outputs \<Longrightarrow>
          fst (loader_run new rt loader h inputs) = Inl Bad_Alloc"
    using box_outputs_full [where ?'e = 'e, of new h outputs "[]"] read rt
    by (auto simp: loader_run_def split: prod.splits)
  show "\<forall>result inputs' loader'' h'.
          loader_run new rt loader h inputs = (Inr result, inputs', loader'', h') \<longrightarrow>
          length result = length outputs
          \<and> (\<forall>i < length outputs. h' (OwnedTensor.ptr (result ! i)) = Some (outputs ! i))"
  proof (intro allI impI)
    fix result inputs' loader'' h'
    assume call: "loader_run new rt loader h inputs = (Inr result, inputs', loader'', h')"
    from loader_run_wraps [OF new call] read rt
    have "tensors_at h' result = map Some outputs" by auto
    from tensors_at_nth [OF this]
    show "length result = length outputs
          \<and> (\<forall>i < length outputs. h' (OwnedTensor.ptr (result ! i)) = Some (outputs ! i))" .
  qed
next
  assume rt: "boxed_run rt loader cpp_inputs = (Inr outputs, loader')"
  show "has_room new h outputs \<Longrightarrow>
          \<exists>result h'. loader_boxed_run new rt loader h inputs
                         = (Inr result, inputs, loader', h')"
    using loader_boxed_run_result [OF new read rt] by blast
  show "\<not> has_room new h outputs \<Longrightarrow>
          fst (loader_boxed_run new rt loader h inputs) = Inl Bad_Alloc"
    using box_outputs_full [where ?'e = 'e, of new h outputs "[]"] read rt
    by (auto simp: loader_boxed_run_def split: prod.splits)
  show "\<forall>result inputs' loader'' h'.
          loader_boxed_run new rt loader h inputs = (Inr result, inputs', loader'', h') \<longrightarrow>
          length result = length outputs
          \<and> (\<forall>i < length outputs. h' (OwnedTensor.ptr (result ! i)) = Some (outputs ! i))"
  proof (intro allI impI)
    fix result inputs' loader'' h'
    assume call: "loader_boxed_run new rt loader h inputs
                    = (Inr result, inputs', loader'', h')"
    from loader_boxed_run_wraps [OF new call] read rt
    have "tensors_at h' result = map Some outputs" by auto
    from tensors_at_nth [OF this]
    show "length result = length outputs
          \<and> (\<forall>i < length outputs. h' (OwnedTensor.ptr (result ! i)) = Some (outputs ! i))" .
  qed
qed

theorem outputs_in_runtime_order_witness:
  "run reversing_loader () [10, 20 :: nat] = (Inr [20, 10], ())
   \<and> boxed_run reversing_loader () [10, 20 :: nat] = (Inr [20, 10], ())
   \<and> has_room (first_fit [1, 2, 3, 4]) [1 \<mapsto> 10, 2 \<mapsto> 20 :: nat] [20, 10]
   \<and> (\<exists>result h'.
         loader_run (first_fit [1, 2, 3, 4]) reversing_loader () [1 \<mapsto> 10, 2 \<mapsto> 20]
             [\<lparr>TensorPtr.ptr = 1\<rparr>, \<lparr>TensorPtr.ptr = 2\<rparr>]
           = (Inr result, [\<lparr>TensorPtr.ptr = 1\<rparr>, \<lparr>TensorPtr.ptr = 2\<rparr>], (), h')
         \<and> length result = 2
         \<and> h' (OwnedTensor.ptr (result ! 0)) = Some 20
         \<and> h' (OwnedTensor.ptr (result ! 1)) = Some 10)
   \<and> (\<exists>result h'.
         loader_boxed_run (first_fit [1, 2, 3, 4]) reversing_loader () [1 \<mapsto> 10, 2 \<mapsto> 20]
             [\<lparr>TensorPtr.ptr = 1\<rparr>, \<lparr>TensorPtr.ptr = 2\<rparr>]
           = (Inr result, [\<lparr>TensorPtr.ptr = 1\<rparr>, \<lparr>TensorPtr.ptr = 2\<rparr>], (), h')
         \<and> length result = 2
         \<and> h' (OwnedTensor.ptr (result ! 0)) = Some 20
         \<and> h' (OwnedTensor.ptr (result ! 1)) = Some 10)"
proof -
  have rt: "run reversing_loader () [10, 20 :: nat] = (Inr [20, 10], ())"
    and brt: "boxed_run reversing_loader () [10, 20 :: nat] = (Inr [20, 10], ())"
    by (simp_all add: reversing_loader_def)
  have room: "has_room (first_fit [1, 2, 3, 4]) [1 \<mapsto> 10, 2 \<mapsto> 20 :: nat] [20, 10]"
    by (simp add: first_fit_def)
  note inst = outputs_in_runtime_order [OF first_fit_fresh [where arena = "[1, 2, 3, 4]"]
      demo_copy, where rt = reversing_loader and loader = "()" and outputs = "[20, 10]"
        and loader' = "()"]
  from inst rt room obtain result h' where
    call: "loader_run (first_fit [1, 2, 3, 4]) reversing_loader () [1 \<mapsto> 10, 2 \<mapsto> 20]
             [\<lparr>TensorPtr.ptr = 1\<rparr>, \<lparr>TensorPtr.ptr = 2\<rparr>]
           = (Inr result, [\<lparr>TensorPtr.ptr = 1\<rparr>, \<lparr>TensorPtr.ptr = 2\<rparr>], (), h')"
    by blast
  with inst rt have "length result = length [20, 10 :: nat]"
    and "\<forall>i < length [20, 10 :: nat]. h' (OwnedTensor.ptr (result ! i)) = Some ([20, 10] ! i)"
    by blast+
  then have pos: "length result = 2" "h' (OwnedTensor.ptr (result ! 0)) = Some 20"
    "h' (OwnedTensor.ptr (result ! 1)) = Some 10"
    by simp_all
  from inst brt room obtain bresult k' where
    bcall: "loader_boxed_run (first_fit [1, 2, 3, 4]) reversing_loader () [1 \<mapsto> 10, 2 \<mapsto> 20]
             [\<lparr>TensorPtr.ptr = 1\<rparr>, \<lparr>TensorPtr.ptr = 2\<rparr>]
           = (Inr bresult, [\<lparr>TensorPtr.ptr = 1\<rparr>, \<lparr>TensorPtr.ptr = 2\<rparr>], (), k')"
    by blast
  with inst brt have "length bresult = length [20, 10 :: nat]"
    and "\<forall>i < length [20, 10 :: nat]. k' (OwnedTensor.ptr (bresult ! i)) = Some ([20, 10] ! i)"
    by blast+
  then have bpos: "length bresult = 2" "k' (OwnedTensor.ptr (bresult ! 0)) = Some 20"
    "k' (OwnedTensor.ptr (bresult ! 1)) = Some 10"
    by simp_all
  from rt brt room call pos bcall bpos show ?thesis by blast
qed

section \<open>The caller's inputs\<close>

text \<open>
  Claim C5. \<^verbatim>\<open>loader_run\<close>, called with handles of live tensors, does not end at the
  dereference, and whatever its outcome it leaves the caller's vector as it was, with
  every pointer value in it, and every tensor object that was live before the call, the
  inputs among them, live and unchanged: the shim deletes and overwrites nothing, so the
  inputs remain the caller's to reuse or release.
\<close>

theorem loader_run_keeps_inputs:
  assumes new: "fresh_allocator new"
    and live: "\<forall>t \<in> set inputs. h (TensorPtr.ptr t) \<noteq> None"
    and call: "loader_run new rt loader h inputs
                 = (r :: 'e failure + OwnedTensor list, inputs', loader', h')"
  shows "inputs' = inputs
       \<and> (\<forall>t \<in> set inputs. h' (TensorPtr.ptr t) = h (TensorPtr.ptr t))
       \<and> (\<forall>a. h a \<noteq> None \<longrightarrow> h' a = h a)
       \<and> r \<noteq> Inl Invalid_Pointer"
proof -
  from loader_run_frame [OF new call]
  have same: "inputs' = inputs" and frame: "\<forall>a x. h a = Some x \<longrightarrow> h' a = Some x"
    by blast+
  from frame have kept: "\<forall>a. h a \<noteq> None \<longrightarrow> h' a = h a" by auto
  with live have "\<forall>t \<in> set inputs. h' (TensorPtr.ptr t) = h (TensorPtr.ptr t)" by blast
  moreover have "r \<noteq> Inl Invalid_Pointer"
    using live call
    by (auto simp: loader_run_def copy_inputs_eq split: prod.splits sum.splits option.splits
        dest: box_outputs_no_invalid_pointer)
  ultimately show ?thesis using same kept by blast
qed


lemma demo_live:
  "\<forall>t \<in> set [\<lparr>TensorPtr.ptr = 1\<rparr>, \<lparr>TensorPtr.ptr = 2\<rparr>].
     [1 \<mapsto> 10, 2 \<mapsto> 20 :: nat] (TensorPtr.ptr t) \<noteq> None"
  by simp

theorem loader_run_keeps_inputs_witness:
  "fst (snd (loader_run (first_fit [1, 2, 3, 4]) reversing_loader () [1 \<mapsto> 10, 2 \<mapsto> 20]
               [\<lparr>TensorPtr.ptr = 1\<rparr>, \<lparr>TensorPtr.ptr = 2\<rparr>]))
     = [\<lparr>TensorPtr.ptr = 1\<rparr>, \<lparr>TensorPtr.ptr = 2\<rparr>]
   \<and> [1 \<mapsto> 10, 2 \<mapsto> 20, 3 \<mapsto> 20, 4 \<mapsto> 10 :: nat] (1 :: size_t) = Some 10
   \<and> [1 \<mapsto> 10, 2 \<mapsto> 20, 3 \<mapsto> 20, 4 \<mapsto> 10 :: nat] (2 :: size_t) = Some 20"
  using loader_run_keeps_inputs [OF first_fit_fresh demo_live demo_run] demo_run
  by simp

text \<open>
  Claim C10. \<^verbatim>\<open>loader_boxed_run\<close>, called with handles of live tensors, leaves the caller's
  vector unchanged, every \<^verbatim>\<open>TensorPtr\<close> value in it the same after the call as before, and
  the tensor objects they address live and unchanged: only the copies in \<^verbatim>\<open>cpp_inputs\<close>
  are moved into the wrapped loader.
\<close>

theorem loader_boxed_run_keeps_inputs:
  assumes new: "fresh_allocator new"
    and live: "\<forall>t \<in> set inputs. h (TensorPtr.ptr t) \<noteq> None"
    and call: "loader_boxed_run new rt loader h inputs
                 = (r :: 'e failure + OwnedTensor list, inputs', loader', h')"
  shows "inputs' = inputs
       \<and> map TensorPtr.ptr inputs' = map TensorPtr.ptr inputs
       \<and> (\<forall>t \<in> set inputs. h' (TensorPtr.ptr t) = h (TensorPtr.ptr t))
       \<and> (\<forall>a. h a \<noteq> None \<longrightarrow> h' a = h a)"
proof -
  from loader_boxed_run_frame [OF new call]
  have same: "inputs' = inputs" and frame: "\<forall>a x. h a = Some x \<longrightarrow> h' a = Some x"
    by blast+
  from frame have kept: "\<forall>a. h a \<noteq> None \<longrightarrow> h' a = h a" by auto
  with live have "\<forall>t \<in> set inputs. h' (TensorPtr.ptr t) = h (TensorPtr.ptr t)" by blast
  with same kept show ?thesis by blast
qed

theorem loader_boxed_run_keeps_inputs_witness:
  "fst (snd (loader_boxed_run (first_fit [1, 2, 3, 4]) reversing_loader ()
               [1 \<mapsto> 10, 2 \<mapsto> 20] [\<lparr>TensorPtr.ptr = 1\<rparr>, \<lparr>TensorPtr.ptr = 2\<rparr>]))
     = [\<lparr>TensorPtr.ptr = 1\<rparr>, \<lparr>TensorPtr.ptr = 2\<rparr>]
   \<and> [1 \<mapsto> 10, 2 \<mapsto> 20, 3 \<mapsto> 20, 4 \<mapsto> 10 :: nat] (1 :: size_t) = Some 10
   \<and> [1 \<mapsto> 10, 2 \<mapsto> 20, 3 \<mapsto> 20, 4 \<mapsto> 10 :: nat] (2 :: size_t) = Some 20"
  using loader_boxed_run_keeps_inputs [OF first_fit_fresh demo_live demo_boxed_run]
    demo_boxed_run
  by simp

section \<open>Errors of the wrapped loader\<close>

text \<open>
  Claim C9. In each of the seven operations, when the wrapped loader throws \<open>e\<close> the call
  of the shim ends with \<open>Thrown e\<close>, the same \<open>e\<close>, and with no result; the loader, or
  for the constructor and the static function the process, is in the state that this one
  call of the wrapped loader left, and for \<^verbatim>\<open>loader_run\<close> and \<^verbatim>\<open>loader_boxed_run\<close> the
  caller's vector and the store are as before the call.
\<close>

theorem runtime_errors_surface:
  "(\<forall>e w'. construct rt w path name single n (sint d) = (Inl e, w') \<longrightarrow>
          loader_new rt w path name single n d = (Inl (Thrown e), w'))
   \<and> (\<forall>e w'. load_metadata_from_package rt w path name = (Inl e, w') \<longrightarrow>
          loader_load_metadata_from_package unicode rt w path name = (Inl (Thrown e), w'))
   \<and> (\<forall>e loader'. get_metadata rt loader = (Inl e, loader') \<longrightarrow>
          loader_get_metadata unicode rt loader = (Inl (Thrown e), loader'))
   \<and> (\<forall>e loader'. get_call_spec rt loader = (Inl e, loader') \<longrightarrow>
          loader_get_call_spec unicode rt loader = (Inl (Thrown e), loader'))
   \<and> (\<forall>e loader'. get_constant_fqns rt loader = (Inl e, loader') \<longrightarrow>
          loader_get_constant_fqns unicode rt loader = (Inl (Thrown e), loader'))
   \<and> (\<forall>e loader' cpp_inputs. copy_inputs h [] inputs = Some cpp_inputs \<longrightarrow>
          run rt loader cpp_inputs = (Inl e, loader') \<longrightarrow>
          loader_run new rt loader h inputs = (Inl (Thrown e), inputs, loader', h))
   \<and> (\<forall>e loader' cpp_inputs. copy_inputs h [] inputs = Some cpp_inputs \<longrightarrow>
          boxed_run rt loader cpp_inputs = (Inl e, loader') \<longrightarrow>
          loader_boxed_run new rt loader h inputs = (Inl (Thrown e), inputs, loader', h))"
  by (simp add: loader_new_def loader_load_metadata_from_package_def loader_get_metadata_def
      loader_get_call_spec_def loader_get_constant_fqns_def loader_run_def
      loader_boxed_run_def)


theorem runtime_errors_surface_witness:
  "loader_new throwing_loader 0 ''resnet.pt2'' ''forward'' False 4 0
       = (Inl (Thrown ''no such file''), 1)
   \<and> loader_load_metadata_from_package ascii throwing_loader 0 ''resnet.pt2'' ''forward''
       = (Inl (Thrown ''no such file''), 1)
   \<and> loader_get_metadata ascii throwing_loader 0 = (Inl (Thrown ''no metadata''), 1)
   \<and> loader_get_call_spec ascii throwing_loader 0 = (Inl (Thrown ''no call spec''), 1)
   \<and> loader_get_constant_fqns ascii throwing_loader 0 = (Inl (Thrown ''no constants''), 1)
   \<and> loader_run (first_fit [1, 2, 3, 4]) throwing_loader 0 [1 \<mapsto> 10, 2 \<mapsto> 20]
        [\<lparr>TensorPtr.ptr = 1\<rparr>, \<lparr>TensorPtr.ptr = 2\<rparr>]
       = (Inl (Thrown ''shape mismatch''), [\<lparr>TensorPtr.ptr = 1\<rparr>, \<lparr>TensorPtr.ptr = 2\<rparr>], 1,
          [1 \<mapsto> 10, 2 \<mapsto> 20])
   \<and> loader_boxed_run (first_fit [1, 2, 3, 4]) throwing_loader 0 [1 \<mapsto> 10, 2 \<mapsto> 20]
        [\<lparr>TensorPtr.ptr = 1\<rparr>, \<lparr>TensorPtr.ptr = 2\<rparr>]
       = (Inl (Thrown ''shape mismatch''), [\<lparr>TensorPtr.ptr = 1\<rparr>, \<lparr>TensorPtr.ptr = 2\<rparr>], 1,
          [1 \<mapsto> 10, 2 \<mapsto> 20])"
  using runtime_errors_surface [where rt = throwing_loader and w = 0
      and path = "''resnet.pt2''"
      and name = "''forward''" and single = False and n = 4 and d = 0 and unicode = ascii
      and loader = 0 and h = "[1 \<mapsto> 10, 2 \<mapsto> 20]" and new = "first_fit [1, 2, 3, 4]"
      and inputs = "[\<lparr>TensorPtr.ptr = 1\<rparr>, \<lparr>TensorPtr.ptr = 2\<rparr>]"]
  by (simp add: throwing_loader_def)


lemma same_runtime_result_same_values:
  assumes new: "fresh_allocator new" and new': "fresh_allocator new'"
    and read: "copy_inputs h [] inputs = Some cpp_inputs"
    and read': "copy_inputs k [] inputs' = Some cpp_inputs"
    and agree: "boxed_run rt loader cpp_inputs = run rt loader cpp_inputs"
    and call: "loader_run new rt loader h inputs
                 = (r :: 'e failure + OwnedTensor list, i1, l1, h1)"
    and call': "loader_boxed_run new' rt loader k inputs'
                 = (r' :: 'e failure + OwnedTensor list, i2, l2, k1)"
  shows "(\<forall>e. r = Inl (Thrown e) \<longleftrightarrow> r' = Inl (Thrown e))
       \<and> (\<forall>res res'. r = Inr res \<longrightarrow> r' = Inr res' \<longrightarrow> tensors_at h1 res = tensors_at k1 res')
       \<and> l1 = l2"
proof -
  obtain out l where rt: "run rt loader cpp_inputs = (out, l)"
    by (cases "run rt loader cpp_inputs")
  show ?thesis
  proof (cases out)
    case (Inl e)
    with call call' read read' agree rt
    have "r = Inl (Thrown e)" "r' = Inl (Thrown e)" "l1 = l2"
      by (auto simp: loader_run_def loader_boxed_run_def)
    then show ?thesis by simp
  next
    case (Inr outputs)
    obtain b hb where box: "box_outputs new h [] outputs = (b :: 'e failure + OwnedTensor list, hb)"
      by (cases "box_outputs new h [] outputs :: ('e failure + OwnedTensor list) \<times> _")
    obtain b' kb where box': "box_outputs new' k [] outputs = (b' :: 'e failure + OwnedTensor list, kb)"
      by (cases "box_outputs new' k [] outputs :: ('e failure + OwnedTensor list) \<times> _")
    from call read rt Inr box have r: "r = b" "h1 = hb" "l1 = l"
      by (simp_all add: loader_run_def)
    from call' read' agree rt Inr box' have r': "r' = b'" "k1 = kb" "l2 = l"
      by (simp_all add: loader_boxed_run_def)
    have no_throw: "\<forall>e. r \<noteq> Inl (Thrown e) \<and> r' \<noteq> Inl (Thrown e)"
      using box_outputs_outcome [OF box] box_outputs_outcome [OF box'] r(1) r'(1) by auto
    have "tensors_at h1 res = tensors_at k1 res'" if "r = Inr res" "r' = Inr res'" for res res'
    proof -
      from that box box' r r'
      have "box_outputs new h [] outputs = (Inr res :: 'e failure + OwnedTensor list, h1)"
        and "box_outputs new' k [] outputs = (Inr res' :: 'e failure + OwnedTensor list, k1)"
        by simp_all
      from box_outputs_result [OF new this(1)] box_outputs_result [OF new' this(2)]
      show ?thesis by auto
    qed
    with no_throw r(3) r'(3) show ?thesis by blast
  qed
qed

lemma spec_boxed_run_agrees:
  "boxed_run (spec_runtime unicode env) H cpp_inputs = run (spec_runtime unicode env) H cpp_inputs"
  by (simp add: spec_runtime_def spec_boxed_run_def)

lemma spec_run_fails:
  "entry_point (loaded_model H) cpp_inputs = Inl text \<Longrightarrow>
     run (spec_runtime unicode env) H cpp_inputs = (Inl (ExecutionError text), H)"
  by (simp add: spec_runtime_def spec_run_def)

lemma spec_run_returns:
  "entry_point (loaded_model H) cpp_inputs = Inr outputs \<Longrightarrow>
     run (spec_runtime unicode env) H cpp_inputs = (Inr outputs, H)"
  by (simp add: spec_runtime_def spec_run_def)

lemma loader_run_throws:
  "copy_inputs h [] inputs = Some cpp_inputs \<Longrightarrow> run rt loader cpp_inputs = (Inl e, loader')
     \<Longrightarrow> loader_run new rt loader h inputs = (Inl (Thrown e), inputs, loader', h)"
  by (simp add: loader_run_def)

lemma loader_boxed_run_throws:
  "copy_inputs h [] inputs = Some cpp_inputs \<Longrightarrow>
     boxed_run rt loader cpp_inputs = (Inl e, loader')
     \<Longrightarrow> loader_boxed_run new rt loader h inputs = (Inl (Thrown e), inputs, loader', h)"
  by (simp add: loader_boxed_run_def)

section \<open>Run and boxed run\<close>

text \<open>
  Claim C2, for the wrapped loader as the specification describes it. Take one handle
  and inputs that address the same tensors, in stores that may differ. When the entry
  point of the loaded model fails on these tensors, \<^verbatim>\<open>loader_run\<close> and
  \<^verbatim>\<open>loader_boxed_run\<close> both end with that \<open>ExecutionError\<close>. When it returns outputs and
  \<^verbatim>\<open>new\<close> has room for them, both calls return, and the handles each returns address,
  in order, exactly the outputs of the entry point. And whatever the two outcomes are,
  the one is an error of the wrapped loader exactly when the other is the same error;
  when both are results they address the same tensors in the same order; and both leave
  the handle in the same state.
\<close>

theorem boxed_run_same_values_as_run:
  assumes new: "fresh_allocator new" and new': "fresh_allocator new'"
    and read: "copy_inputs h [] inputs = Some cpp_inputs"
    and read': "copy_inputs k [] inputs' = Some cpp_inputs"
  shows "(\<forall>text. entry_point (loaded_model H) cpp_inputs = Inl text \<longrightarrow>
            loader_run new (spec_runtime unicode env) H h inputs
              = (Inl (Thrown (ExecutionError text)), inputs, H, h)
            \<and> loader_boxed_run new' (spec_runtime unicode env) H k inputs'
              = (Inl (Thrown (ExecutionError text)), inputs', H, k))
       \<and> (\<forall>outputs. entry_point (loaded_model H) cpp_inputs = Inr outputs \<longrightarrow>
            has_room new h outputs \<longrightarrow> has_room new' k outputs \<longrightarrow>
            (\<exists>res h1 res' k1.
               loader_run new (spec_runtime unicode env) H h inputs = (Inr res, inputs, H, h1)
               \<and> loader_boxed_run new' (spec_runtime unicode env) H k inputs'
                   = (Inr res', inputs', H, k1)
               \<and> tensors_at h1 res = map Some outputs
               \<and> tensors_at k1 res' = map Some outputs))
       \<and> (\<forall>r i1 H1 h1 r' i2 H2 k1.
            loader_run new (spec_runtime unicode env) H h inputs = (r, i1, H1, h1) \<longrightarrow>
            loader_boxed_run new' (spec_runtime unicode env) H k inputs' = (r', i2, H2, k1) \<longrightarrow>
            (\<forall>e. r = Inl (Thrown e) \<longleftrightarrow> r' = Inl (Thrown e))
            \<and> (\<forall>res res'. r = Inr res \<longrightarrow> r' = Inr res' \<longrightarrow>
                  tensors_at h1 res = tensors_at k1 res')
            \<and> H1 = H2)"
proof (intro conjI)
  show "\<forall>text. entry_point (loaded_model H) cpp_inputs = Inl text \<longrightarrow>
          loader_run new (spec_runtime unicode env) H h inputs
            = (Inl (Thrown (ExecutionError text)), inputs, H, h)
          \<and> loader_boxed_run new' (spec_runtime unicode env) H k inputs'
            = (Inl (Thrown (ExecutionError text)), inputs', H, k)"
  proof (intro allI impI)
    fix msg assume "entry_point (loaded_model H) cpp_inputs = Inl msg"
    from spec_run_fails [OF this, of unicode env]
    have rt: "run (spec_runtime unicode env) H cpp_inputs = (Inl (ExecutionError msg), H)" .
    then have brt: "boxed_run (spec_runtime unicode env) H cpp_inputs
                      = (Inl (ExecutionError msg), H)"
      by (simp add: spec_boxed_run_agrees)
    from loader_run_throws [OF read rt] loader_boxed_run_throws [OF read' brt]
    show "loader_run new (spec_runtime unicode env) H h inputs
            = (Inl (Thrown (ExecutionError msg)), inputs, H, h)
          \<and> loader_boxed_run new' (spec_runtime unicode env) H k inputs'
            = (Inl (Thrown (ExecutionError msg)), inputs', H, k)"
      by blast
  qed
  show "\<forall>outputs. entry_point (loaded_model H) cpp_inputs = Inr outputs \<longrightarrow>
          has_room new h outputs \<longrightarrow> has_room new' k outputs \<longrightarrow>
          (\<exists>res h1 res' k1.
             loader_run new (spec_runtime unicode env) H h inputs = (Inr res, inputs, H, h1)
             \<and> loader_boxed_run new' (spec_runtime unicode env) H k inputs'
                 = (Inr res', inputs', H, k1)
             \<and> tensors_at h1 res = map Some outputs
             \<and> tensors_at k1 res' = map Some outputs)"
  proof (intro allI impI)
    fix outputs
    assume "entry_point (loaded_model H) cpp_inputs = Inr outputs"
      and room: "has_room new h outputs" and room': "has_room new' k outputs"
    from spec_run_returns [OF this(1), of unicode env]
    have rt: "run (spec_runtime unicode env) H cpp_inputs = (Inr outputs, H)" .
    then have brt: "boxed_run (spec_runtime unicode env) H cpp_inputs = (Inr outputs, H)"
      by (simp add: spec_boxed_run_agrees)
    from loader_run_result [OF new read rt room]
      loader_boxed_run_result [OF new' read' brt room']
    show "\<exists>res h1 res' k1.
             loader_run new (spec_runtime unicode env) H h inputs = (Inr res, inputs, H, h1)
             \<and> loader_boxed_run new' (spec_runtime unicode env) H k inputs'
                 = (Inr res', inputs', H, k1)
             \<and> tensors_at h1 res = map Some outputs
             \<and> tensors_at k1 res' = map Some outputs"
      by blast
  qed
  show "\<forall>r i1 H1 h1 r' i2 H2 k1.
          loader_run new (spec_runtime unicode env) H h inputs = (r, i1, H1, h1) \<longrightarrow>
          loader_boxed_run new' (spec_runtime unicode env) H k inputs' = (r', i2, H2, k1) \<longrightarrow>
          (\<forall>e. r = Inl (Thrown e) \<longleftrightarrow> r' = Inl (Thrown e))
          \<and> (\<forall>res res'. r = Inr res \<longrightarrow> r' = Inr res' \<longrightarrow>
                tensors_at h1 res = tensors_at k1 res')
          \<and> H1 = H2"
    using same_runtime_result_same_values [OF new new' read read' spec_boxed_run_agrees]
    by blast
qed

theorem boxed_run_same_values_as_run_witness:
  "copy_inputs [1 \<mapsto> 10 :: nat] [] [\<lparr>TensorPtr.ptr = 1\<rparr>] = Some [10]
   \<and> copy_inputs [1 \<mapsto> 10, 2 \<mapsto> 11 :: nat] [] [\<lparr>TensorPtr.ptr = 1\<rparr>] = Some [10]
   \<and> entry_point (loaded_model resnet_handle) [10] = Inr [11]
   \<and> has_room (first_fit [1, 2, 3]) [1 \<mapsto> 10 :: nat] [11]
   \<and> has_room (first_fit [1, 2, 3]) [1 \<mapsto> 10, 2 \<mapsto> 11 :: nat] [11]
   \<and> (\<exists>res h1 res' k1.
         loader_run (first_fit [1, 2, 3]) (spec_runtime ascii one_device) resnet_handle
             [1 \<mapsto> 10] [\<lparr>TensorPtr.ptr = 1\<rparr>]
           = (Inr res, [\<lparr>TensorPtr.ptr = 1\<rparr>], resnet_handle, h1)
         \<and> loader_boxed_run (first_fit [1, 2, 3]) (spec_runtime ascii one_device)
               resnet_handle [1 \<mapsto> 10, 2 \<mapsto> 11] [\<lparr>TensorPtr.ptr = 1\<rparr>]
           = (Inr res', [\<lparr>TensorPtr.ptr = 1\<rparr>], resnet_handle, k1)
         \<and> tensors_at h1 res = [Some 11]
         \<and> tensors_at k1 res' = [Some 11])"
proof -
  have read: "copy_inputs [1 \<mapsto> 10 :: nat] [] [\<lparr>TensorPtr.ptr = 1\<rparr>] = Some [10]"
    and read': "copy_inputs [1 \<mapsto> 10, 2 \<mapsto> 11 :: nat] [] [\<lparr>TensorPtr.ptr = 1\<rparr>] = Some [10]"
    by simp_all
  have entry: "entry_point (loaded_model resnet_handle) [10] = Inr [11]"
    by (simp add: resnet_handle_def resnet_def)
  have room: "has_room (first_fit [1, 2, 3]) [1 \<mapsto> 10 :: nat] [11]"
    and room': "has_room (first_fit [1, 2, 3]) [1 \<mapsto> 10, 2 \<mapsto> 11 :: nat] [11]"
    by (simp_all add: first_fit_def)
  from boxed_run_same_values_as_run [OF first_fit_fresh first_fit_fresh read read',
      where H = resnet_handle and unicode = ascii and env = one_device] entry room room'
  have "\<exists>res h1 res' k1.
         loader_run (first_fit [1, 2, 3]) (spec_runtime ascii one_device) resnet_handle
             [1 \<mapsto> 10] [\<lparr>TensorPtr.ptr = 1\<rparr>]
           = (Inr res, [\<lparr>TensorPtr.ptr = 1\<rparr>], resnet_handle, h1)
         \<and> loader_boxed_run (first_fit [1, 2, 3]) (spec_runtime ascii one_device)
               resnet_handle [1 \<mapsto> 10, 2 \<mapsto> 11] [\<lparr>TensorPtr.ptr = 1\<rparr>]
           = (Inr res', [\<lparr>TensorPtr.ptr = 1\<rparr>], resnet_handle, k1)
         \<and> tensors_at h1 res = map Some [11]
         \<and> tensors_at k1 res' = map Some [11]"
    by blast
  with read read' entry room room' show ?thesis by simp
qed

section \<open>The wrapped loader of the specification under the shim\<close>

lemma push_entries_text:
  "list_all unicode (map fst kvs) \<Longrightarrow> list_all unicode (map snd kvs) \<Longrightarrow>
     push_entries unicode acc kvs = Inr (acc @ map (\<lambda>(k, v). \<lparr>key = k, value = v\<rparr>) kvs)"
  by (induction kvs arbitrary: acc) auto

lemma push_strings_text:
  "list_all unicode ss \<Longrightarrow> push_strings unicode acc ss = Inr (acc @ ss)"
  by (induction ss arbitrary: acc) auto

lemma mapping_of_entries:
  "mapping_of (map (\<lambda>(k, v). \<lparr>key = k, value = v\<rparr>) kvs) = map_of kvs"
proof -
  have "map (\<lambda>e. (key e, MetadataEntry.value e)) (map (\<lambda>(k, v). \<lparr>key = k, value = v\<rparr>) kvs) = kvs"
    by (induction kvs) auto
  then show ?thesis by (simp add: mapping_of_def)
qed

lemma spec_open_handle:
  "spec_open unicode env w path name single n d = (Inr H, w') \<Longrightarrow>
     packages env (path, name) = Some (loaded_model H) \<and> well_formed unicode (loaded_model H)
     \<and> (d = host_only env \<or> d \<in> set (devices env))
     \<and> runner_pool H = replicate (if single then 1 else unat n)
                          (if d = host_only env then Host else Device d)
     \<and> w' = w\<lparr>allocated_pools := runner_pool H # allocated_pools w\<rparr>"
  by (auto simp: spec_open_def Let_def split: if_splits option.splits)

lemma spec_open_succeeds:
  "packages env (path, name) = Some p \<Longrightarrow> well_formed unicode p \<Longrightarrow>
     d = host_only env \<or> d \<in> set (devices env) \<Longrightarrow>
     \<exists>H w'. spec_open unicode env w path name single n d = (Inr H, w')"
  by (auto simp: spec_open_def Let_def)

lemma loader_new_spec:
  "loader_new (spec_runtime unicode env) w path name single n d = (Inr H, w') \<longleftrightarrow>
     spec_open unicode env w path name single n (sint d) = (Inr H, w')"
  by (auto simp: loader_new_def spec_runtime_def split: sum.splits prod.splits)

lemma spec_static_load:
  "loader_load_metadata_from_package unicode (spec_runtime unicode env) w path name =
     ((case packages env (path, name) of
         None \<Rightarrow> Inl (Thrown PackageNotFoundError)
       | Some p \<Rightarrow>
           if valid_metadata unicode p
           then Inr (map (\<lambda>(k, v). \<lparr>key = k, value = v\<rparr>) (metadata p))
           else Inl (Thrown PackageFormatError)), w)"
  by (simp add: loader_load_metadata_from_package_def spec_runtime_def
      spec_load_metadata_from_package_def valid_metadata_def push_entries_text
      split: option.splits)

lemma spec_get_metadata:
  "valid_metadata unicode (loaded_model H) \<Longrightarrow>
     loader_get_metadata unicode (spec_runtime unicode env) H
       = (Inr (map (\<lambda>(k, v). \<lparr>key = k, value = v\<rparr>) (metadata (loaded_model H))), H)"
  by (simp add: loader_get_metadata_def spec_runtime_def valid_metadata_def push_entries_text)

lemma spec_get_call_spec:
  "well_formed unicode (loaded_model H) \<Longrightarrow>
     loader_get_call_spec unicode (spec_runtime unicode env) H
       = (Inr (call_spec (loaded_model H)), H)"
  by (simp add: loader_get_call_spec_def spec_runtime_def well_formed_def push_strings_text)

lemma get_call_spec_times_fixed:
  "loader_get_call_spec unicode rt loader = (r, loader) \<Longrightarrow>
     get_call_spec_times k unicode rt loader = (replicate k r, loader)"
  by (induction k) auto

lemma load_metadata_times_fixed:
  "loader_load_metadata_from_package unicode rt w path name = (r, w) \<Longrightarrow>
     load_metadata_times k unicode rt w path name = (replicate k r, w)"
  by (induction k) auto

lemma resnet_well_formed: "well_formed ascii resnet"
  by (simp add: well_formed_def valid_metadata_def resnet_def ascii_def)

lemma resnet_package: "packages one_device (''resnet.pt2'', ''forward'') = Some resnet"
  by (simp add: one_device_def)

lemma resnet_open:
  "loader_new (spec_runtime ascii one_device) \<lparr>allocated_pools = []\<rparr>
       ''resnet.pt2'' ''forward'' False 2 0
     = (Inr resnet_handle, \<lparr>allocated_pools = [[Device 0, Device 0]]\<rparr>)"
proof -
  have two: "replicate 2 (Device 0) = [Device 0, Device 0]"
    by (simp add: numeral_2_eq_2)
  have "unat (2 :: size_t) = 2" by simp
  with two have "replicate (unat (2 :: size_t)) (Device 0) = [Device 0, Device 0]"
    by simp
  then show ?thesis
    by (simp add: loader_new_def spec_runtime_def spec_open_def one_device_def
        resnet_well_formed resnet_handle_def Let_def)
qed

section \<open>Metadata\<close>

text \<open>
  Claim C3, for the wrapped loader as the specification describes it. For a path and a
  model name that resolve to a well-formed package, \<^verbatim>\<open>loader_load_metadata_from_package\<close>,
  which takes no loader, returns in any state of the process the entries of the package's
  metadata, and on every handle that \<^verbatim>\<open>loader_new\<close> opens on the same path and model
  name, in whatever state of the process, \<^verbatim>\<open>loader_get_metadata\<close> returns entries that
  stand for the same mapping.
\<close>

theorem static_metadata_matches_handle:
  assumes pkg: "packages env (path, name) = Some p"
    and ok: "well_formed unicode p"
  shows "\<exists>entries.
           loader_load_metadata_from_package unicode (spec_runtime unicode env) w path name
             = (Inr entries, w)
           \<and> mapping_of entries = map_of (metadata p)
           \<and> (\<forall>w1 single n d H w2.
                 loader_new (spec_runtime unicode env) w1 path name single n d
                   = (Inr H, w2) \<longrightarrow>
                 (\<exists>entries'. loader_get_metadata unicode (spec_runtime unicode env) H
                                = (Inr entries', H)
                    \<and> mapping_of entries' = mapping_of entries))"
proof -
  let ?entries = "map (\<lambda>(k, v). \<lparr>key = k, value = v\<rparr>) (metadata p)"
  from ok have md: "valid_metadata unicode p" by (simp add: well_formed_def)
  have static: "loader_load_metadata_from_package unicode (spec_runtime unicode env) w path name
                  = (Inr ?entries, w)"
    using pkg md by (simp add: spec_static_load)
  have "\<exists>entries'. loader_get_metadata unicode (spec_runtime unicode env) H = (Inr entries', H)
          \<and> mapping_of entries' = mapping_of ?entries"
    if "loader_new (spec_runtime unicode env) w1 path name single n d = (Inr H, w2)"
    for w1 single n d H w2
  proof -
    from that have "spec_open unicode env w1 path name single n (sint d) = (Inr H, w2)"
      by (simp add: loader_new_spec)
    from spec_open_handle [OF this] pkg have "loaded_model H = p" by simp
    with md spec_get_metadata [of unicode H env] show ?thesis by simp
  qed
  with static mapping_of_entries [of "metadata p"] show ?thesis by blast
qed

theorem static_metadata_matches_handle_witness:
  "packages one_device (''resnet.pt2'', ''forward'') = Some resnet
   \<and> well_formed ascii resnet
   \<and> (\<exists>entries.
        loader_load_metadata_from_package ascii (spec_runtime ascii one_device)
            \<lparr>allocated_pools = []\<rparr> ''resnet.pt2'' ''forward''
          = (Inr entries, \<lparr>allocated_pools = []\<rparr>)
        \<and> mapping_of entries = map_of [(''device'', ''cuda''), (''version'', ''2'')]
        \<and> (\<exists>entries'. loader_get_metadata ascii (spec_runtime ascii one_device) resnet_handle
                          = (Inr entries', resnet_handle)
              \<and> mapping_of entries' = mapping_of entries))"
proof -
  have md: "metadata resnet = [(''device'', ''cuda''), (''version'', ''2'')]"
    by (simp add: resnet_def)
  from static_metadata_matches_handle [OF resnet_package resnet_well_formed,
      of "\<lparr>allocated_pools = []\<rparr>"] resnet_open md
  have "\<exists>entries.
        loader_load_metadata_from_package ascii (spec_runtime ascii one_device)
            \<lparr>allocated_pools = []\<rparr> ''resnet.pt2'' ''forward''
          = (Inr entries, \<lparr>allocated_pools = []\<rparr>)
        \<and> mapping_of entries = map_of [(''device'', ''cuda''), (''version'', ''2'')]
        \<and> (\<exists>entries'. loader_get_metadata ascii (spec_runtime ascii one_device) resnet_handle
                          = (Inr entries', resnet_handle)
              \<and> mapping_of entries' = mapping_of entries)"
    by metis
  with resnet_package resnet_well_formed show ?thesis by blast
qed

text \<open>
  Claim C6, for the wrapped loader as the specification describes it.
  \<^verbatim>\<open>loader_load_metadata_from_package\<close> takes no loader and returns none. In every state
  of the process and with any devices, none included, it returns the entries of the
  package's metadata when the path and the model name resolve to a package with valid
  metadata, \<open>PackageNotFoundError\<close> when they resolve to nothing and \<open>PackageFormatError\<close>
  when the metadata is not valid; and it leaves the state of the process as it found it:
  the runner pools allocated are the same after the call as before, and nothing is handed
  from one call to the next. So any number of calls in a row each return what one call
  returns; the same holds in every environment where the path and the model name resolve
  to the same metadata, whatever else the package and the environment hold.
\<close>

theorem static_metadata_reads_only_metadata:
  assumes same: "map_option metadata (packages env (path, name))
                   = map_option metadata (packages env' (path, name))"
  shows "(packages env (path, name) = None \<longrightarrow>
            loader_load_metadata_from_package unicode (spec_runtime unicode env) w path name
              = (Inl (Thrown PackageNotFoundError), w))
       \<and> (\<forall>p. packages env (path, name) = Some p \<longrightarrow> \<not> valid_metadata unicode p \<longrightarrow>
            loader_load_metadata_from_package unicode (spec_runtime unicode env) w path name
              = (Inl (Thrown PackageFormatError), w))
       \<and> (\<forall>p. packages env (path, name) = Some p \<longrightarrow> valid_metadata unicode p \<longrightarrow>
            loader_load_metadata_from_package unicode (spec_runtime unicode env) w path name
              = (Inr (map (\<lambda>(k, v). \<lparr>key = k, value = v\<rparr>) (metadata p)), w))
       \<and> allocated_pools
           (snd (loader_load_metadata_from_package unicode (spec_runtime unicode env) w
                   path name))
           = allocated_pools w
       \<and> fst (loader_load_metadata_from_package unicode (spec_runtime unicode env') w' path name)
           = fst (loader_load_metadata_from_package unicode (spec_runtime unicode env) w
                    path name)
       \<and> fst (loader_load_metadata_from_package unicode
                (spec_runtime unicode (env\<lparr>devices := []\<rparr>)) w path name)
           = fst (loader_load_metadata_from_package unicode (spec_runtime unicode env) w
                    path name)
       \<and> load_metadata_times k unicode (spec_runtime unicode env) w path name
           = (replicate k
                (fst (loader_load_metadata_from_package unicode (spec_runtime unicode env) w
                        path name)), w)"
proof (intro conjI)
  show "packages env (path, name) = None \<longrightarrow>
          loader_load_metadata_from_package unicode (spec_runtime unicode env) w path name
            = (Inl (Thrown PackageNotFoundError), w)"
    by (simp add: spec_static_load)
  show "\<forall>p. packages env (path, name) = Some p \<longrightarrow> \<not> valid_metadata unicode p \<longrightarrow>
          loader_load_metadata_from_package unicode (spec_runtime unicode env) w path name
            = (Inl (Thrown PackageFormatError), w)"
    by (simp add: spec_static_load)
  show "\<forall>p. packages env (path, name) = Some p \<longrightarrow> valid_metadata unicode p \<longrightarrow>
          loader_load_metadata_from_package unicode (spec_runtime unicode env) w path name
            = (Inr (map (\<lambda>(k, v). \<lparr>key = k, value = v\<rparr>) (metadata p)), w)"
    by (simp add: spec_static_load)
  show "allocated_pools
          (snd (loader_load_metadata_from_package unicode (spec_runtime unicode env) w
                  path name))
          = allocated_pools w"
    by (simp add: spec_static_load)
  show "fst (loader_load_metadata_from_package unicode (spec_runtime unicode env') w' path name)
          = fst (loader_load_metadata_from_package unicode (spec_runtime unicode env) w
                   path name)"
  proof (cases "packages env (path, name)")
    case None
    with same have "packages env' (path, name) = None" by simp
    with None show ?thesis by (simp add: spec_static_load)
  next
    case (Some p)
    with same obtain p' where p': "packages env' (path, name) = Some p'"
      "metadata p' = metadata p"
      by (cases "packages env' (path, name)") auto
    then have "valid_metadata unicode p' = valid_metadata unicode p"
      by (simp add: valid_metadata_def)
    with Some p' show ?thesis by (simp add: spec_static_load)
  qed
  show "fst (loader_load_metadata_from_package unicode
               (spec_runtime unicode (env\<lparr>devices := []\<rparr>)) w path name)
          = fst (loader_load_metadata_from_package unicode (spec_runtime unicode env) w
                   path name)"
    by (simp add: spec_static_load)
  have "loader_load_metadata_from_package unicode (spec_runtime unicode env) w path name
          = (fst (loader_load_metadata_from_package unicode (spec_runtime unicode env) w
                    path name), w)"
    by (simp add: spec_static_load)
  from load_metadata_times_fixed [OF this]
  show "load_metadata_times k unicode (spec_runtime unicode env) w path name
          = (replicate k
               (fst (loader_load_metadata_from_package unicode (spec_runtime unicode env) w
                       path name)), w)" .
qed

theorem static_metadata_reads_only_metadata_witness:
  "loader_load_metadata_from_package ascii (spec_runtime ascii one_device)
       \<lparr>allocated_pools = [[Host]]\<rparr> ''resnet.pt2'' ''forward''
     = (Inr [\<lparr>key = ''device'', value = ''cuda''\<rparr>, \<lparr>key = ''version'', value = ''2''\<rparr>],
        \<lparr>allocated_pools = [[Host]]\<rparr>)
   \<and> fst (loader_load_metadata_from_package ascii
            (spec_runtime ascii (one_device\<lparr>devices := []\<rparr>))
            \<lparr>allocated_pools = [[Host]]\<rparr> ''resnet.pt2'' ''forward'')
     = Inr [\<lparr>key = ''device'', value = ''cuda''\<rparr>, \<lparr>key = ''version'', value = ''2''\<rparr>]
   \<and> load_metadata_times 3 ascii (spec_runtime ascii one_device)
        \<lparr>allocated_pools = [[Host]]\<rparr> ''resnet.pt2'' ''forward''
     = ([Inr [\<lparr>key = ''device'', value = ''cuda''\<rparr>, \<lparr>key = ''version'', value = ''2''\<rparr>],
         Inr [\<lparr>key = ''device'', value = ''cuda''\<rparr>, \<lparr>key = ''version'', value = ''2''\<rparr>],
         Inr [\<lparr>key = ''device'', value = ''cuda''\<rparr>, \<lparr>key = ''version'', value = ''2''\<rparr>]],
        \<lparr>allocated_pools = [[Host]]\<rparr>)"
proof -
  have same: "map_option metadata (packages one_device (''resnet.pt2'', ''forward''))
                = map_option metadata (packages one_device (''resnet.pt2'', ''forward''))"
    by simp
  have valid: "valid_metadata ascii resnet"
    using resnet_well_formed by (simp add: well_formed_def)
  have md: "map (\<lambda>(k, v). \<lparr>key = k, value = v\<rparr>) (metadata resnet)
              = [\<lparr>key = ''device'', value = ''cuda''\<rparr>, \<lparr>key = ''version'', value = ''2''\<rparr>]"
    by (simp add: resnet_def)
  have three: "replicate 3 x = [x, x, x]" for x :: "error failure + MetadataEntry list"
    by (simp add: numeral_3_eq_3)
  note inst = static_metadata_reads_only_metadata [OF same, where unicode = ascii
      and w = "\<lparr>allocated_pools = [[Host]]\<rparr>" and k = 3]
  from inst resnet_package valid md
  have one: "loader_load_metadata_from_package ascii (spec_runtime ascii one_device)
               \<lparr>allocated_pools = [[Host]]\<rparr> ''resnet.pt2'' ''forward''
             = (Inr [\<lparr>key = ''device'', value = ''cuda''\<rparr>, \<lparr>key = ''version'', value = ''2''\<rparr>],
                \<lparr>allocated_pools = [[Host]]\<rparr>)"
    by simp
  with inst three show ?thesis by simp
qed

section \<open>Opening a package\<close>

text \<open>
  Claim C7, for the wrapped loader as the specification describes it. \<^verbatim>\<open>loader_new\<close>
  passes the device index on with its value. When the index is neither the host-only
  sentinel nor an available device the call fails with \<open>DeviceUnavailableError\<close> and
  leaves the process as it was; when the call returns a handle, the index is the sentinel
  or an available device, the pool has the requested number of runners (one when
  single-threaded), every runner of the pool is bound to the host for the sentinel and to
  that device otherwise, and this pool is what the call has allocated in the process.
\<close>

theorem open_checks_device:
  "(sint d \<noteq> host_only env \<and> sint d \<notin> set (devices env) \<longrightarrow>
      loader_new (spec_runtime unicode env) w path name single n d
        = (Inl (Thrown DeviceUnavailableError), w))
   \<and> (\<forall>H w'. loader_new (spec_runtime unicode env) w path name single n d = (Inr H, w') \<longrightarrow>
          (sint d = host_only env \<or> sint d \<in> set (devices env))
          \<and> length (runner_pool H) = (if single then 1 else unat n)
          \<and> (\<forall>r \<in> set (runner_pool H).
                r = (if sint d = host_only env then Host else Device (sint d)))
          \<and> w' = w\<lparr>allocated_pools := runner_pool H # allocated_pools w\<rparr>)"
proof (intro conjI)
  show "sint d \<noteq> host_only env \<and> sint d \<notin> set (devices env) \<longrightarrow>
          loader_new (spec_runtime unicode env) w path name single n d
            = (Inl (Thrown DeviceUnavailableError), w)"
    by (simp add: loader_new_def spec_runtime_def spec_open_def)
  show "\<forall>H w'. loader_new (spec_runtime unicode env) w path name single n d = (Inr H, w') \<longrightarrow>
          (sint d = host_only env \<or> sint d \<in> set (devices env))
          \<and> length (runner_pool H) = (if single then 1 else unat n)
          \<and> (\<forall>r \<in> set (runner_pool H).
                r = (if sint d = host_only env then Host else Device (sint d)))
          \<and> w' = w\<lparr>allocated_pools := runner_pool H # allocated_pools w\<rparr>"
  proof (intro allI impI)
    fix H w'
    assume "loader_new (spec_runtime unicode env) w path name single n d = (Inr H, w')"
    then have "spec_open unicode env w path name single n (sint d) = (Inr H, w')"
      by (simp add: loader_new_spec)
    from spec_open_handle [OF this]
    show "(sint d = host_only env \<or> sint d \<in> set (devices env))
          \<and> length (runner_pool H) = (if single then 1 else unat n)
          \<and> (\<forall>r \<in> set (runner_pool H).
                r = (if sint d = host_only env then Host else Device (sint d)))
          \<and> w' = w\<lparr>allocated_pools := runner_pool H # allocated_pools w\<rparr>"
      by auto
  qed
qed

theorem open_checks_device_witness:
  "loader_new (spec_runtime ascii one_device) \<lparr>allocated_pools = []\<rparr>
       ''resnet.pt2'' ''forward'' False 2 5
     = (Inl (Thrown DeviceUnavailableError), \<lparr>allocated_pools = []\<rparr>)
   \<and> loader_new (spec_runtime ascii one_device) \<lparr>allocated_pools = []\<rparr>
       ''resnet.pt2'' ''forward'' False 2 0
     = (Inr resnet_handle, \<lparr>allocated_pools = [[Device 0, Device 0]]\<rparr>)
   \<and> length (runner_pool resnet_handle) = 2
   \<and> set (runner_pool resnet_handle) = {Device 0}"
proof -
  have away: "sint (5 :: 8 word) \<noteq> host_only one_device
                \<and> sint (5 :: 8 word) \<notin> set (devices one_device)"
    by (simp add: one_device_def)
  from open_checks_device [where d = 5 and env = one_device and unicode = ascii
      and w = "\<lparr>allocated_pools = []\<rparr>" and path = "''resnet.pt2''"
      and name = "''forward''" and single = False and n = 2] away
  have "loader_new (spec_runtime ascii one_device) \<lparr>allocated_pools = []\<rparr>
          ''resnet.pt2'' ''forward'' False 2 5
        = (Inl (Thrown DeviceUnavailableError), \<lparr>allocated_pools = []\<rparr>)"
    by blast
  moreover have "length (runner_pool resnet_handle) = 2"
    and "set (runner_pool resnet_handle) = {Device 0}"
    by (simp_all add: resnet_handle_def)
  ultimately show ?thesis using resnet_open by blast
qed

section \<open>The call spec\<close>

text \<open>
  Claim C8, for the wrapped loader as the specification describes it. For a path and a
  model name that resolve to a well-formed package, and a device index that is the
  sentinel or an available device, \<^verbatim>\<open>loader_new\<close> returns a handle, in whatever state
  of the process, on which \<^verbatim>\<open>loader_get_call_spec\<close> returns the call spec of the
  package, a sequence that is not empty, and leaves the handle as it was; any number of
  calls in a row return that same sequence each.
\<close>

theorem call_spec_nonempty_and_stable:
  assumes pkg: "packages env (path, name) = Some p"
    and ok: "well_formed unicode p"
    and dev: "sint d = host_only env \<or> sint d \<in> set (devices env)"
  shows "\<exists>H w'. loader_new (spec_runtime unicode env) w path name single n d = (Inr H, w')
           \<and> loader_get_call_spec unicode (spec_runtime unicode env) H = (Inr (call_spec p), H)
           \<and> call_spec p \<noteq> []
           \<and> (\<forall>k. get_call_spec_times k unicode (spec_runtime unicode env) H
                      = (replicate k (Inr (call_spec p)), H))"
proof -
  from spec_open_succeeds [OF pkg ok dev] obtain H w' where
    opened: "spec_open unicode env w path name single n (sint d) = (Inr H, w')"
    by blast
  from spec_open_handle [OF opened] pkg have model: "loaded_model H = p" by simp
  with ok spec_get_call_spec [of unicode H env]
  have once: "loader_get_call_spec unicode (spec_runtime unicode env) H = (Inr (call_spec p), H)"
    by simp
  from ok have "call_spec p \<noteq> []" by (simp add: well_formed_def)
  with opened once get_call_spec_times_fixed [OF once] show ?thesis
    by (auto simp: loader_new_spec)
qed

theorem call_spec_nonempty_and_stable_witness:
  "loader_get_call_spec ascii (spec_runtime ascii one_device) resnet_handle
     = (Inr [''input_0'', ''output_0''], resnet_handle)
   \<and> get_call_spec_times 2 ascii (spec_runtime ascii one_device) resnet_handle
     = ([Inr [''input_0'', ''output_0''], Inr [''input_0'', ''output_0'']], resnet_handle)"
proof -
  have dev: "sint (0 :: 8 word) = host_only one_device \<or> sint (0 :: 8 word) \<in> set (devices one_device)"
    by (simp add: one_device_def)
  have cs: "call_spec resnet = [''input_0'', ''output_0'']" by (simp add: resnet_def)
  have two: "replicate 2 x = [x, x]" for x :: "error failure + string list"
    by (simp add: numeral_2_eq_2)
  from call_spec_nonempty_and_stable [OF resnet_package resnet_well_formed dev,
      where w = "\<lparr>allocated_pools = []\<rparr>" and single = False and n = 2]
    resnet_open
  have "loader_get_call_spec ascii (spec_runtime ascii one_device) resnet_handle
          = (Inr (call_spec resnet), resnet_handle)"
    and "get_call_spec_times 2 ascii (spec_runtime ascii one_device) resnet_handle
          = (replicate 2 (Inr (call_spec resnet)), resnet_handle)"
    by auto
  with cs two show ?thesis by simp
qed

end
